theory Spec2Isabelle
  imports Complex_Main
begin

section \<open>Translation payloads\<close>

text \<open>
  A translation document is parsed JSON. The loader and the key extractor only ever
  distinguish three shapes of a value: a string, an object (own keys in insertion
  order), and everything else (numbers, booleans, \<^verbatim>\<open>null\<close>, \<^verbatim>\<open>undefined\<close>), which is
  neither descended into nor returned. The top level of a document is an object, and a
  document holds no arrays: the interface \<^verbatim>\<open>TranslationData\<close> of \<^verbatim>\<open>types.ts\<close> is sections
  of keys of strings.
\<close>

datatype json = JStr string | JObj "(string \<times> json) list" | JOther

type_synonym Locale = string
type_synonym Section = string
type_synonym TranslationKey = string
type_synonym TranslationData = json

section \<open>The JavaScript \<^verbatim>\<open>Map\<close>\<close>

text \<open>
  A \<^verbatim>\<open>Map\<close> iterates in insertion order. \<^verbatim>\<open>set\<close> on a key that is present replaces
  the value where the key stands; on a new key it appends. \<^verbatim>\<open>delete\<close> removes the key.
\<close>

fun Map_set :: "'k \<Rightarrow> 'v \<Rightarrow> ('k \<times> 'v) list \<Rightarrow> ('k \<times> 'v) list" where
  "Map_set k v [] = [(k, v)]"
| "Map_set k v ((k', v') # m) = (if k' = k then (k, v) # m else (k', v') # Map_set k v m)"

definition Map_delete :: "'k \<Rightarrow> ('k \<times> 'v) list \<Rightarrow> ('k \<times> 'v) list" where
  "Map_delete k m = filter (\<lambda>p. fst p \<noteq> k) m"

definition Map_get :: "('k \<times> 'v) list \<Rightarrow> 'k \<Rightarrow> 'v option" where
  "Map_get m k = map_of m k"

definition Map_has :: "('k \<times> 'v) list \<Rightarrow> 'k \<Rightarrow> bool" where
  "Map_has m k = (map_of m k \<noteq> None)"

section \<open>Cache entries (\<^verbatim>\<open>cache.ts\<close>, class \<^verbatim>\<open>CacheEntryImpl\<close>)\<close>

text \<open>
  \<^verbatim>\<open>Date.now()\<close> is an integer number of milliseconds; every operation that reads the
  clock takes the reading as its first argument \<open>now\<close>.
\<close>

record 'a CacheEntryImpl =
  data :: 'a
  timestamp :: int
  ttl :: int
  hits :: nat

definition new_CacheEntryImpl :: "int \<Rightarrow> 'a \<Rightarrow> int option \<Rightarrow> 'a CacheEntryImpl" where
  "new_CacheEntryImpl now d t =
     \<lparr>data = d, timestamp = now, ttl = (case t of None \<Rightarrow> 300000 | Some x \<Rightarrow> x), hits = 0\<rparr>"

definition isExpired :: "int \<Rightarrow> 'a CacheEntryImpl \<Rightarrow> bool" where
  "isExpired now e = (now - timestamp e > ttl e)"

definition isValid :: "int \<Rightarrow> 'a CacheEntryImpl \<Rightarrow> bool" where
  "isValid now e = (\<not> isExpired now e)"

definition incrementHits :: "'a CacheEntryImpl \<Rightarrow> 'a CacheEntryImpl" where
  "incrementHits e = e\<lparr>hits := hits e + 1\<rparr>"

definition getAge :: "int \<Rightarrow> 'a CacheEntryImpl \<Rightarrow> int" where
  "getAge now e = now - timestamp e"

text \<open>Hits per second; the quotient of the two numbers is kept exact.\<close>

definition getHitRate :: "int \<Rightarrow> 'a CacheEntryImpl \<Rightarrow> rat" where
  "getHitRate now e =
     (let age = getAge now e
      in if age > 0 then of_nat (hits e) / (of_int age / 1000) else 0)"

section \<open>The two caching strategies\<close>

text \<open>
  \<^verbatim>\<open>MemoryCacheStrategy\<close> and \<^verbatim>\<open>LRUCacheStrategy\<close> hold the same two fields that matter
  here: the \<^verbatim>\<open>Map\<close> of entries and \<^verbatim>\<open>maxSize\<close>. The interval timer only calls
  \<^verbatim>\<open>cleanup\<close>, which is an operation of its own below.
\<close>

record 'a CachingStrategy =
  cache :: "(string \<times> 'a CacheEntryImpl) list"
  maxSize :: int

definition new_CachingStrategy :: "int \<Rightarrow> 'a CachingStrategy" where
  "new_CachingStrategy n = \<lparr>cache = [], maxSize = n\<rparr>"

definition cache_size :: "'a CachingStrategy \<Rightarrow> nat" where
  "cache_size s = length (cache s)"

subsection \<open>\<^verbatim>\<open>MemoryCacheStrategy\<close>\<close>

definition Memory_get ::
  "int \<Rightarrow> string \<Rightarrow> 'a CachingStrategy \<Rightarrow> 'a CacheEntryImpl option \<times> 'a CachingStrategy" where
  "Memory_get now key s =
     (case Map_get (cache s) key of
        None \<Rightarrow> (None, s)
      | Some entry \<Rightarrow>
          if isExpired now entry then (None, s\<lparr>cache := Map_delete key (cache s)\<rparr>)
          else (Some (incrementHits entry),
                s\<lparr>cache := Map_set key (incrementHits entry) (cache s)\<rparr>))"

text \<open>
  The scan of \<^verbatim>\<open>evictLeastUsed\<close>. Its three variables start as \<^verbatim>\<open>null\<close>, \<^verbatim>\<open>Infinity\<close>,
  \<^verbatim>\<open>Infinity\<close>: that state is \<open>None\<close>, and any entry beats it because its rate is below
  \<^verbatim>\<open>Infinity\<close>.
\<close>

definition evict_scan ::
  "int \<Rightarrow> (string \<times> rat \<times> int) option \<Rightarrow> string \<times> 'a CacheEntryImpl
     \<Rightarrow> (string \<times> rat \<times> int) option" where
  "evict_scan now acc p =
     (let hitRate = getHitRate now (snd p); age = getAge now (snd p)
      in case acc of
           None \<Rightarrow> Some (fst p, hitRate, age)
         | Some (leastUsedKey, leastHits, oldestTimestamp) \<Rightarrow>
             if hitRate < leastHits \<or> (hitRate = leastHits \<and> age > oldestTimestamp)
             then Some (fst p, hitRate, age)
             else acc)"

definition leastUsedKey :: "int \<Rightarrow> (string \<times> 'a CacheEntryImpl) list \<Rightarrow> string option" where
  "leastUsedKey now m = map_option fst (foldl (evict_scan now) None m)"

text \<open>\<^verbatim>\<open>if (leastUsedKey)\<close> is false for \<^verbatim>\<open>null\<close> and for the empty string.\<close>

definition evictLeastUsed :: "int \<Rightarrow> 'a CachingStrategy \<Rightarrow> 'a CachingStrategy" where
  "evictLeastUsed now s =
     (case leastUsedKey now (cache s) of
        None \<Rightarrow> s
      | Some k \<Rightarrow> if k = [] then s else s\<lparr>cache := Map_delete k (cache s)\<rparr>)"

definition Memory_set ::
  "int \<Rightarrow> string \<Rightarrow> 'a \<Rightarrow> int option \<Rightarrow> 'a CachingStrategy \<Rightarrow> 'a CachingStrategy" where
  "Memory_set now key d t s =
     (let s1 = (if int (length (cache s)) \<ge> maxSize s then evictLeastUsed now s else s)
      in s1\<lparr>cache := Map_set key (new_CacheEntryImpl now d t) (cache s1)\<rparr>)"

subsection \<open>\<^verbatim>\<open>LRUCacheStrategy\<close>\<close>

definition LRU_get ::
  "int \<Rightarrow> string \<Rightarrow> 'a CachingStrategy \<Rightarrow> 'a CacheEntryImpl option \<times> 'a CachingStrategy" where
  "LRU_get now key s =
     (case Map_get (cache s) key of
        None \<Rightarrow> (None, s)
      | Some entry \<Rightarrow>
          if isExpired now entry then (None, s\<lparr>cache := Map_delete key (cache s)\<rparr>)
          else (Some (incrementHits entry),
                s\<lparr>cache := Map_set key (incrementHits entry) (Map_delete key (cache s))\<rparr>))"

text \<open>\<^verbatim>\<open>this.cache.keys().next().value\<close> is \<^verbatim>\<open>undefined\<close> on an empty map; \<^verbatim>\<open>if (firstKey)\<close>
  is false for it and for the empty string.\<close>

definition LRU_evict :: "'a CachingStrategy \<Rightarrow> 'a CachingStrategy" where
  "LRU_evict s =
     (case cache s of
        [] \<Rightarrow> s
      | p # _ \<Rightarrow> if fst p = [] then s else s\<lparr>cache := Map_delete (fst p) (cache s)\<rparr>)"

definition LRU_set ::
  "int \<Rightarrow> string \<Rightarrow> 'a \<Rightarrow> int option \<Rightarrow> 'a CachingStrategy \<Rightarrow> 'a CachingStrategy" where
  "LRU_set now key d t s =
     (let s1 = (if int (length (cache s)) \<ge> maxSize s then LRU_evict s else s)
      in s1\<lparr>cache := Map_set key (new_CacheEntryImpl now d t) (cache s1)\<rparr>)"

subsection \<open>Operations the two classes share word for word\<close>

definition has :: "int \<Rightarrow> string \<Rightarrow> 'a CachingStrategy \<Rightarrow> bool" where
  "has now key s = (case Map_get (cache s) key of None \<Rightarrow> False | Some entry \<Rightarrow> isValid now entry)"

definition clear :: "'a CachingStrategy \<Rightarrow> 'a CachingStrategy" where
  "clear s = s\<lparr>cache := []\<rparr>"

definition expiredKeys :: "int \<Rightarrow> (string \<times> 'a CacheEntryImpl) list \<Rightarrow> string list" where
  "expiredKeys now m = map fst (filter (\<lambda>p. isExpired now (snd p)) m)"

definition cleanup :: "int \<Rightarrow> 'a CachingStrategy \<Rightarrow> 'a CachingStrategy" where
  "cleanup now s = s\<lparr>cache := foldl (\<lambda>m k. Map_delete k m) (cache s) (expiredKeys now (cache s))\<rparr>"

section \<open>\<^verbatim>\<open>TranslationCacheManager\<close>\<close>

record CacheConfig =
  config_maxSize :: int
  config_ttl :: int

record TranslationCacheManager =
  localeCache :: "json CachingStrategy"
  sectionCache :: "json CachingStrategy"
  keyCache :: "string CachingStrategy"
  config :: CacheConfig

definition new_TranslationCacheManager :: "CacheConfig \<Rightarrow> TranslationCacheManager" where
  "new_TranslationCacheManager c =
     \<lparr>localeCache = new_CachingStrategy (config_maxSize c),
      sectionCache = new_CachingStrategy (config_maxSize c),
      keyCache = new_CachingStrategy (config_maxSize c * 2),
      config = c\<rparr>"

definition locale_key :: "Locale \<Rightarrow> string" where
  "locale_key locale = ''locale:'' @ locale"

definition section_key :: "Locale \<Rightarrow> Section \<Rightarrow> string" where
  "section_key locale section = ''section:'' @ locale @ '':'' @ section"

definition key_key :: "Locale \<Rightarrow> TranslationKey \<Rightarrow> string" where
  "key_key locale key = ''key:'' @ locale @ '':'' @ key"

definition getLocaleCache ::
  "int \<Rightarrow> Locale \<Rightarrow> TranslationCacheManager
     \<Rightarrow> json CacheEntryImpl option \<times> TranslationCacheManager" where
  "getLocaleCache now locale m =
     (let (r, c) = Memory_get now (locale_key locale) (localeCache m)
      in (r, m\<lparr>localeCache := c\<rparr>))"

definition setLocaleCache ::
  "int \<Rightarrow> Locale \<Rightarrow> json \<Rightarrow> TranslationCacheManager \<Rightarrow> TranslationCacheManager" where
  "setLocaleCache now locale d m =
     m\<lparr>localeCache := Memory_set now (locale_key locale) d (Some (config_ttl (config m))) (localeCache m)\<rparr>"

definition hasLocaleCache :: "int \<Rightarrow> Locale \<Rightarrow> TranslationCacheManager \<Rightarrow> bool" where
  "hasLocaleCache now locale m = has now (locale_key locale) (localeCache m)"

definition getSectionCache ::
  "int \<Rightarrow> Locale \<Rightarrow> Section \<Rightarrow> TranslationCacheManager
     \<Rightarrow> json CacheEntryImpl option \<times> TranslationCacheManager" where
  "getSectionCache now locale section m =
     (let (r, c) = LRU_get now (section_key locale section) (sectionCache m)
      in (r, m\<lparr>sectionCache := c\<rparr>))"

definition setSectionCache ::
  "int \<Rightarrow> Locale \<Rightarrow> Section \<Rightarrow> json \<Rightarrow> TranslationCacheManager \<Rightarrow> TranslationCacheManager" where
  "setSectionCache now locale section d m =
     m\<lparr>sectionCache :=
         LRU_set now (section_key locale section) d (Some (config_ttl (config m))) (sectionCache m)\<rparr>"

definition hasSectionCache :: "int \<Rightarrow> Locale \<Rightarrow> Section \<Rightarrow> TranslationCacheManager \<Rightarrow> bool" where
  "hasSectionCache now locale section m = has now (section_key locale section) (sectionCache m)"

definition getKeyCache ::
  "int \<Rightarrow> Locale \<Rightarrow> TranslationKey \<Rightarrow> TranslationCacheManager
     \<Rightarrow> string CacheEntryImpl option \<times> TranslationCacheManager" where
  "getKeyCache now locale key m =
     (let (r, c) = Memory_get now (key_key locale key) (keyCache m)
      in (r, m\<lparr>keyCache := c\<rparr>))"

definition setKeyCache ::
  "int \<Rightarrow> Locale \<Rightarrow> TranslationKey \<Rightarrow> string \<Rightarrow> TranslationCacheManager
     \<Rightarrow> TranslationCacheManager" where
  "setKeyCache now locale key v m =
     m\<lparr>keyCache := Memory_set now (key_key locale key) v (Some (config_ttl (config m))) (keyCache m)\<rparr>"

definition hasKeyCache :: "int \<Rightarrow> Locale \<Rightarrow> TranslationKey \<Rightarrow> TranslationCacheManager \<Rightarrow> bool" where
  "hasKeyCache now locale key m = has now (key_key locale key) (keyCache m)"

definition clearAll :: "TranslationCacheManager \<Rightarrow> TranslationCacheManager" where
  "clearAll m =
     m\<lparr>localeCache := clear (localeCache m),
       sectionCache := clear (sectionCache m),
       keyCache := clear (keyCache m)\<rparr>"

text \<open>\<^verbatim>\<open>clearLocale\<close> never reads its argument: it calls \<^verbatim>\<open>clear()\<close> on each tier.\<close>

definition clearLocale :: "Locale \<Rightarrow> TranslationCacheManager \<Rightarrow> TranslationCacheManager" where
  "clearLocale locale m =
     m\<lparr>localeCache := clear (localeCache m),
       sectionCache := clear (sectionCache m),
       keyCache := clear (keyCache m)\<rparr>"

definition manager_cleanup :: "int \<Rightarrow> TranslationCacheManager \<Rightarrow> TranslationCacheManager" where
  "manager_cleanup now m =
     m\<lparr>localeCache := cleanup now (localeCache m),
       sectionCache := cleanup now (sectionCache m),
       keyCache := cleanup now (keyCache m)\<rparr>"

text \<open>Payloads for \<^verbatim>\<open>en\<close> and \<^verbatim>\<open>vi\<close> cached at the three tiers, everything at one clock
  reading, with the configuration of \<^verbatim>\<open>cache.spec.ts\<close> (\<^verbatim>\<open>maxSize: 5, ttl: 1000\<close>). The test
  \<^verbatim>\<open>should clear locale-specific caches\<close> of that file builds the same state but for the
  key of \<^verbatim>\<open>vi\<close>.\<close>

definition testCacheConfig :: CacheConfig where
  "testCacheConfig = \<lparr>config_maxSize = 5, config_ttl = 1000\<rparr>"

definition en_vi_cached :: "int \<Rightarrow> TranslationCacheManager" where
  "en_vi_cached now =
     setKeyCache now ''vi'' ''common.hello'' ''Xin chao''
       (setSectionCache now ''vi'' ''common'' (JObj [(''hello'', JStr ''Xin chao'')])
         (setLocaleCache now ''vi'' (JObj [(''common'', JObj [(''hello'', JStr ''Xin chao'')])])
           (setKeyCache now ''en'' ''common.hello'' ''Hello''
             (setSectionCache now ''en'' ''common'' (JObj [(''hello'', JStr ''Hello'')])
               (setLocaleCache now ''en'' (JObj [(''common'', JObj [(''hello'', JStr ''Hello'')])])
                 (new_TranslationCacheManager testCacheConfig))))))"

section \<open>Histories of cache operations\<close>











section \<open>Invariants of a strategy\<close>



section \<open>Concrete stores used to exercise the theorems\<close>

definition one_entry :: "json CachingStrategy" where
  "one_entry = \<lparr>cache = [(''locale:en'', \<lparr>data = JOther, timestamp = 0, ttl = 1000, hits = 0\<rparr>)],
                maxSize = 5\<rparr>"


section \<open>Errors (\<^verbatim>\<open>errors.ts\<close>)\<close>

text \<open>
  An error value is either a plain JavaScript \<^verbatim>\<open>Error\<close> with its message, or an instance
  of \<^verbatim>\<open>I18nError\<close> or of one of its seven subclasses, with message, context and the
  wrapped original error. The random identifier and the timestamps of an error play no
  part in any decision and are left out. In a context, \<open>None\<close> is a field that is
  \<^verbatim>\<open>undefined\<close>.
\<close>

datatype ErrorClass =
    I18nError | TranslationLoadError | TranslationKeyError | SectionLoadError
  | ModuleLoadError | NetworkError | CacheError | ConfigurationError

record ErrorContext =
  ctx_locale :: "Locale option"
  ctx_key :: "TranslationKey option"
  ctx_section :: "Section option"
  ctx_module :: "string option"
  ctx_operation :: string

datatype js_error =
    Error string
  | I18n ErrorClass string ErrorContext "js_error option"

text \<open>A string used as a condition: \<^verbatim>\<open>undefined\<close> and the empty string are false.
  \<open>str_of\<close> reads a field that the condition has found to be a string.\<close>

fun truthy :: "string option \<Rightarrow> bool" where
  "truthy None = False"
| "truthy (Some s) = (s \<noteq> [])"

fun str_of :: "string option \<Rightarrow> string" where
  "str_of None = []"
| "str_of (Some s) = s"

fun error_message :: "js_error \<Rightarrow> string" where
  "error_message (Error m) = m"
| "error_message (I18n c m ctx cause) = m"

text \<open>\<^verbatim>\<open>error.constructor.name\<close>\<close>

fun class_name :: "ErrorClass \<Rightarrow> string" where
  "class_name I18nError = ''I18nError''"
| "class_name TranslationLoadError = ''TranslationLoadError''"
| "class_name TranslationKeyError = ''TranslationKeyError''"
| "class_name SectionLoadError = ''SectionLoadError''"
| "class_name ModuleLoadError = ''ModuleLoadError''"
| "class_name NetworkError = ''NetworkError''"
| "class_name CacheError = ''CacheError''"
| "class_name ConfigurationError = ''ConfigurationError''"

fun constructor_name :: "js_error \<Rightarrow> string" where
  "constructor_name (Error m) = ''Error''"
| "constructor_name (I18n c m ctx cause) = class_name c"

fun is_ConfigurationError :: "js_error \<Rightarrow> bool" where
  "is_ConfigurationError (I18n ConfigurationError m ctx cause) = True"
| "is_ConfigurationError e = False"

fun error_locale :: "js_error \<Rightarrow> Locale option" where
  "error_locale (Error m) = None"
| "error_locale (I18n c m ctx cause) = ctx_locale ctx"

definition new_TranslationLoadError :: "Locale \<Rightarrow> string \<Rightarrow> js_error option \<Rightarrow> js_error" where
  "new_TranslationLoadError locale m original =
     I18n TranslationLoadError m
       \<lparr>ctx_locale = Some locale, ctx_key = None, ctx_section = None, ctx_module = None,
        ctx_operation = ''load_translation''\<rparr> original"

definition new_TranslationKeyError ::
  "Locale \<Rightarrow> TranslationKey \<Rightarrow> string \<Rightarrow> js_error option \<Rightarrow> js_error" where
  "new_TranslationKeyError locale key m original =
     I18n TranslationKeyError m
       \<lparr>ctx_locale = Some locale, ctx_key = Some key, ctx_section = None, ctx_module = None,
        ctx_operation = ''get_translation_key''\<rparr> original"

definition new_SectionLoadError ::
  "Locale \<Rightarrow> Section \<Rightarrow> string \<Rightarrow> js_error option \<Rightarrow> js_error" where
  "new_SectionLoadError locale section m original =
     I18n SectionLoadError m
       \<lparr>ctx_locale = Some locale, ctx_key = None, ctx_section = Some section, ctx_module = None,
        ctx_operation = ''load_section''\<rparr> original"

definition new_ModuleLoadError ::
  "Locale \<Rightarrow> string \<Rightarrow> string \<Rightarrow> js_error option \<Rightarrow> js_error" where
  "new_ModuleLoadError locale modl m original =
     I18n ModuleLoadError m
       \<lparr>ctx_locale = Some locale, ctx_key = None, ctx_section = None, ctx_module = Some modl,
        ctx_operation = ''load_module''\<rparr> original"

definition new_NetworkError :: "Locale \<Rightarrow> string \<Rightarrow> js_error option \<Rightarrow> js_error" where
  "new_NetworkError locale m original =
     I18n NetworkError m
       \<lparr>ctx_locale = Some locale, ctx_key = None, ctx_section = None, ctx_module = None,
        ctx_operation = ''network_request''\<rparr> original"

definition new_ConfigurationError :: "string \<Rightarrow> js_error option \<Rightarrow> js_error" where
  "new_ConfigurationError m original =
     I18n ConfigurationError m
       \<lparr>ctx_locale = None, ctx_key = None, ctx_section = None, ctx_module = None,
        ctx_operation = ''configuration''\<rparr> original"

subsection \<open>\<^verbatim>\<open>ErrorRecoveryManager\<close>\<close>

datatype StrategyType = Retry | Fallback | Skip | Abort

record ErrorRecoveryStrategy =
  strategy_type :: StrategyType
  fallbackLocale :: "Locale option"
  retryCount :: "int option"
  retryDelay :: "int option"

definition skip_strategy :: ErrorRecoveryStrategy where
  "skip_strategy =
     \<lparr>strategy_type = Skip, fallbackLocale = None, retryCount = None, retryDelay = None\<rparr>"

text \<open>\<^verbatim>\<open>initializeDefaultStrategies\<close>: the table a new manager starts with.\<close>

definition initializeDefaultStrategies :: "(string \<times> ErrorRecoveryStrategy) list" where
  "initializeDefaultStrategies =
     [(''network'',
         \<lparr>strategy_type = Retry, fallbackLocale = None, retryCount = Some 3, retryDelay = Some 1000\<rparr>),
      (''translation_load'',
         \<lparr>strategy_type = Fallback, fallbackLocale = Some ''en'', retryCount = None,
          retryDelay = None\<rparr>),
      (''translation_key'', skip_strategy),
      (''cache'',
         \<lparr>strategy_type = Retry, fallbackLocale = None, retryCount = Some 1, retryDelay = Some 100\<rparr>),
      (''configuration'',
         \<lparr>strategy_type = Abort, fallbackLocale = None, retryCount = None, retryDelay = None\<rparr>)]"

fun getErrorType :: "js_error \<Rightarrow> string" where
  "getErrorType (I18n NetworkError m ctx cause) = ''network''"
| "getErrorType (I18n TranslationLoadError m ctx cause) = ''translation_load''"
| "getErrorType (I18n TranslationKeyError m ctx cause) = ''translation_key''"
| "getErrorType (I18n SectionLoadError m ctx cause) = ''section_load''"
| "getErrorType (I18n ModuleLoadError m ctx cause) = ''module_load''"
| "getErrorType (I18n CacheError m ctx cause) = ''cache''"
| "getErrorType (I18n ConfigurationError m ctx cause) = ''configuration''"
| "getErrorType e = ''unknown''"

definition getRecoveryStrategy ::
  "(string \<times> ErrorRecoveryStrategy) list \<Rightarrow> js_error \<Rightarrow> ErrorRecoveryStrategy" where
  "getRecoveryStrategy recoveryStrategies error =
     (case Map_get recoveryStrategies (getErrorType error) of
        None \<Rightarrow> skip_strategy
      | Some s \<Rightarrow> s)"

definition setRecoveryStrategy ::
  "string \<Rightarrow> ErrorRecoveryStrategy \<Rightarrow> (string \<times> ErrorRecoveryStrategy) list
     \<Rightarrow> (string \<times> ErrorRecoveryStrategy) list" where
  "setRecoveryStrategy errorType strategy recoveryStrategies =
     Map_set errorType strategy recoveryStrategies"

subsection \<open>\<^verbatim>\<open>ErrorTracker\<close>\<close>

record ErrorTracker =
  errorLog :: "js_error list"
  errorCounts :: "(string \<times> nat) list"
  localeErrorCounts :: "(Locale \<times> nat) list"
  recoverySuccessCount :: nat
  recoveryAttemptCount :: nat
  maxLogSize :: nat

definition new_ErrorTracker :: ErrorTracker where
  "new_ErrorTracker =
     \<lparr>errorLog = [], errorCounts = [], localeErrorCounts = [], recoverySuccessCount = 0,
      recoveryAttemptCount = 0, maxLogSize = 100\<rparr>"

text \<open>\<^verbatim>\<open>(map.get(k) || 0) + 1\<close>\<close>

definition bump :: "string \<Rightarrow> (string \<times> nat) list \<Rightarrow> (string \<times> nat) list" where
  "bump k m = Map_set k ((case Map_get m k of None \<Rightarrow> 0 | Some n \<Rightarrow> n) + 1) m"

definition count_of :: "(string \<times> nat) list \<Rightarrow> string \<Rightarrow> nat" where
  "count_of m k = (case Map_get m k of None \<Rightarrow> 0 | Some n \<Rightarrow> n)"

definition trackError :: "js_error \<Rightarrow> ErrorTracker \<Rightarrow> ErrorTracker" where
  "trackError error t =
     (let log1 = errorLog t @ [error];
          log2 = (if length log1 > maxLogSize t then tl log1 else log1);
          t1 = t\<lparr>errorLog := log2, errorCounts := bump (constructor_name error) (errorCounts t)\<rparr>
      in if truthy (error_locale error)
         then t1\<lparr>localeErrorCounts := bump (str_of (error_locale error)) (localeErrorCounts t1)\<rparr>
         else t1)"

definition trackRecoveryAttempt :: "bool \<Rightarrow> ErrorTracker \<Rightarrow> ErrorTracker" where
  "trackRecoveryAttempt success t =
     (let t1 = t\<lparr>recoveryAttemptCount := recoveryAttemptCount t + 1\<rparr>
      in if success then t1\<lparr>recoverySuccessCount := recoverySuccessCount t1 + 1\<rparr> else t1)"

subsection \<open>\<^verbatim>\<open>String.prototype.includes\<close>\<close>

fun starts_with :: "string \<Rightarrow> string \<Rightarrow> bool" where
  "starts_with s [] = True"
| "starts_with [] (c # p) = False"
| "starts_with (a # s) (c # p) = (a = c \<and> starts_with s p)"

fun str_includes :: "string \<Rightarrow> string \<Rightarrow> bool" where
  "str_includes [] p = (p = [])"
| "str_includes (a # s) p = (starts_with (a # s) p \<or> str_includes s p)"

subsection \<open>\<^verbatim>\<open>ErrorHandler.wrapError\<close>\<close>

definition wrapError :: "js_error \<Rightarrow> ErrorContext \<Rightarrow> js_error" where
  "wrapError error context =
     (case error of
        I18n c m ctx cause \<Rightarrow> error
      | Error m \<Rightarrow>
          if truthy (ctx_locale context) \<and> truthy (ctx_key context)
          then new_TranslationKeyError (str_of (ctx_locale context)) (str_of (ctx_key context)) m (Some error)
          else if truthy (ctx_locale context) \<and> truthy (ctx_section context)
          then new_SectionLoadError (str_of (ctx_locale context)) (str_of (ctx_section context)) m (Some error)
          else if truthy (ctx_locale context) \<and> truthy (ctx_module context)
          then new_ModuleLoadError (str_of (ctx_locale context)) (str_of (ctx_module context)) m (Some error)
          else if truthy (ctx_locale context)
          then new_TranslationLoadError (str_of (ctx_locale context)) m (Some error)
          else if str_includes m ''network'' \<or> str_includes m ''fetch''
          then new_NetworkError ''unknown'' m (Some error)
          else I18n I18nError m context (Some error))"

section \<open>The shared state of the runtime\<close>

text \<open>
  The cache manager, the error tracker and the recovery manager are process-wide
  singletons; the module loader owns the map of in-flight promises. A promise is named by
  a number; \<open>settled\<close> holds the outcome of each promise that has settled. \<open>fetchLog\<close> is
  the list of network requests issued so far (the locale of each, oldest first); it is
  the network's side of the state, kept to count requests.
\<close>

record System =
  cacheManager :: TranslationCacheManager
  errorTracker :: ErrorTracker
  recoveryStrategies :: "(string \<times> ErrorRecoveryStrategy) list"
  loadingPromises :: "(string \<times> nat) list"
  nextPromise :: nat
  settled :: "(nat \<times> (js_error + json)) list"
  fetchLog :: "Locale list"

definition new_System :: "CacheConfig \<Rightarrow> System" where
  "new_System c =
     \<lparr>cacheManager = new_TranslationCacheManager c,
      errorTracker = new_ErrorTracker,
      recoveryStrategies = initializeDefaultStrategies,
      loadingPromises = [],
      nextPromise = 0,
      settled = [],
      fetchLog = []\<rparr>"

section \<open>\<^verbatim>\<open>ErrorRecoveryExecutor\<close>\<close>

text \<open>
  A recovery callback runs on the shared state and either returns a value, of which the
  executor only tests the truth, or throws. The executor's own effects besides the
  callback are its waits; the trace lists both in the order they happen, each call with
  its outcome.
\<close>

datatype cb_result = Returned bool | Threw

datatype recovery_event = Invoked cb_result | Waited int

type_synonym recoveryFunction = "ErrorRecoveryStrategy \<Rightarrow> System \<Rightarrow> cb_result \<times> System"

text \<open>\<^verbatim>\<open>x || d\<close> on an optional number: \<^verbatim>\<open>undefined\<close> and \<open>0\<close> give the default.\<close>

fun or_default :: "int option \<Rightarrow> int \<Rightarrow> int" where
  "or_default None d = d"
| "or_default (Some x) d = (if x = 0 then d else x)"

text \<open>The \<^verbatim>\<open>for\<close> loop of \<^verbatim>\<open>executeRetryStrategy\<close>, from \<open>attempt\<close> on.\<close>

function retry_loop ::
  "int \<Rightarrow> int \<Rightarrow> int \<Rightarrow> recoveryFunction \<Rightarrow> ErrorRecoveryStrategy \<Rightarrow> System
     \<Rightarrow> bool \<times> System \<times> recovery_event list" where
  "retry_loop attempt maxRetries delay f strategy w =
     (if attempt \<le> maxRetries
      then (case f strategy w of
              (Returned True, w') \<Rightarrow> (True, w', [Invoked (Returned True)])
            | (r, w') \<Rightarrow>
                (let pause = (if attempt < maxRetries then [Waited delay] else []);
                     (b, w'', tr) = retry_loop (attempt + 1) maxRetries delay f strategy w'
                 in (b, w'', Invoked r # pause @ tr)))
      else (False, w, []))"
  by pat_completeness auto
termination
  by (relation "measure (\<lambda>(attempt, maxRetries, delay, f, strategy, w). nat (maxRetries + 1 - attempt))")
    auto

declare retry_loop.simps [simp del]

definition executeRetryStrategy ::
  "ErrorRecoveryStrategy \<Rightarrow> recoveryFunction \<Rightarrow> System \<Rightarrow> bool \<times> System \<times> recovery_event list" where
  "executeRetryStrategy strategy f w =
     (let maxRetries = or_default (retryCount strategy) 3;
          delay = or_default (retryDelay strategy) 1000
      in retry_loop 1 maxRetries delay f strategy w)"

definition executeFallbackStrategy ::
  "ErrorRecoveryStrategy \<Rightarrow> recoveryFunction \<Rightarrow> System \<Rightarrow> bool \<times> System \<times> recovery_event list" where
  "executeFallbackStrategy strategy f w =
     (case f strategy w of
        (Returned b, w') \<Rightarrow> (b, w', [Invoked (Returned b)])
      | (Threw, w') \<Rightarrow> (False, w', [Invoked Threw]))"

definition executeStrategy ::
  "ErrorRecoveryStrategy \<Rightarrow> recoveryFunction \<Rightarrow> System \<Rightarrow> bool \<times> System \<times> recovery_event list" where
  "executeStrategy strategy f w =
     (case strategy_type strategy of
        Retry \<Rightarrow> executeRetryStrategy strategy f w
      | Fallback \<Rightarrow> executeFallbackStrategy strategy f w
      | Skip \<Rightarrow> (True, w, [])
      | Abort \<Rightarrow> (False, w, []))"

text \<open>
  \<^verbatim>\<open>executeStrategy\<close> catches what the callback throws, so the \<^verbatim>\<open>catch\<close> of
  \<^verbatim>\<open>executeRecovery\<close> is never entered; what remains is the \<^verbatim>\<open>try\<close> block.
\<close>

definition executeRecovery ::
  "js_error \<Rightarrow> recoveryFunction \<Rightarrow> System \<Rightarrow> bool \<times> System \<times> recovery_event list" where
  "executeRecovery error f w =
     (let strategy = getRecoveryStrategy (recoveryStrategies w) error;
          (success, w', tr) = executeStrategy strategy f w
      in (success, w'\<lparr>errorTracker := trackRecoveryAttempt success (errorTracker w')\<rparr>, tr))"

section \<open>\<^verbatim>\<open>ErrorHandler.handleError\<close>\<close>

definition handleError ::
  "js_error \<Rightarrow> ErrorContext \<Rightarrow> recoveryFunction option \<Rightarrow> System \<Rightarrow> bool \<times> System" where
  "handleError error context f w =
     (let i18nError = wrapError error context;
          w1 = w\<lparr>errorTracker := trackError i18nError (errorTracker w)\<rparr>
      in case f of
           Some g \<Rightarrow> (let (success, w2, tr) = executeRecovery i18nError g w1 in (success, w2))
         | None \<Rightarrow> (False, w1))"






section \<open>Configuration (\<^verbatim>\<open>config.ts\<close>)\<close>

record I18nConfig =
  supportedLocales :: "Locale list"
  config_fallbackLocale :: Locale
  defaultLocale :: Locale

definition I18N_CONFIG :: I18nConfig where
  "I18N_CONFIG =
     \<lparr>supportedLocales = [''en'', ''vi''], config_fallbackLocale = ''vi'', defaultLocale = ''vi''\<rparr>"

section \<open>The network\<close>

text \<open>
  What the three steps \<^verbatim>\<open>fetch(filePath)\<close>, \<^verbatim>\<open>response.ok\<close>, \<^verbatim>\<open>response.json()\<close> come to: the
  request fails (it is rejected, with the error's message; or answered with a status
  that is not ok, with status and status text; or answered with a body that is not JSON,
  with the parser's message), or it is answered with a document, whose top level is an
  object. The network is
  any function from the number of the request (0 for the first request ever issued) and
  the locale requested to such an answer, so it may answer the same locale differently
  at different times.
\<close>

datatype failure = Rejected string | NotOk string string | Malformed string

datatype response = Failed failure | Json "(string \<times> json) list"

type_synonym network = "nat \<Rightarrow> Locale \<Rightarrow> response"

definition filePath :: "Locale \<Rightarrow> string" where
  "filePath locale = ''/i18n/'' @ locale @ ''.json''"

definition fetch :: "network \<Rightarrow> Locale \<Rightarrow> System \<Rightarrow> response \<times> System" where
  "fetch net locale w = (net (length (fetchLog w)) locale, w\<lparr>fetchLog := fetchLog w @ [locale]\<rparr>)"

definition quoted :: "string \<Rightarrow> string" where
  "quoted s = [CHR 0x27] @ s @ [CHR 0x27]"

text \<open>The error thrown inside the \<^verbatim>\<open>try\<close> block for an answer that is not a document;
  \<open>prefix\<close> is \<^verbatim>\<open>Failed to fetch\<close> or \<^verbatim>\<open>Failed to fetch fallback\<close>.\<close>

fun thrown :: "string \<Rightarrow> Locale \<Rightarrow> failure \<Rightarrow> js_error" where
  "thrown prefix locale (Rejected m) = Error m"
| "thrown prefix locale (NotOk status statusText) =
     Error (prefix @ '' '' @ filePath locale @ '': '' @ status @ '' '' @ statusText)"
| "thrown prefix locale (Malformed m) = Error m"

text \<open>\<^verbatim>\<open>section ? { [section]: fullData[section] } : fullData\<close>; a section the document lacks
  reads as \<^verbatim>\<open>undefined\<close>.\<close>

definition extract_section :: "Section option \<Rightarrow> (string \<times> json) list \<Rightarrow> json" where
  "extract_section section fullData =
     (if truthy section
      then JObj [(str_of section,
                  (case map_of fullData (str_of section) of None \<Rightarrow> JOther | Some v \<Rightarrow> v))]
      else JObj fullData)"

section \<open>\<^verbatim>\<open>DynamicModuleLoader\<close>\<close>

definition loadFallback ::
  "network \<Rightarrow> Locale \<Rightarrow> Section option \<Rightarrow> System \<Rightarrow> (js_error + json) \<times> System" where
  "loadFallback net locale section w =
     (let (resp, w1) = fetch net locale w
      in case resp of
           Json fullData \<Rightarrow> (Inr (extract_section section fullData), w1)
         | Failed x \<Rightarrow>
             (Inl (new_TranslationLoadError locale
                     (''Fallback loading failed for locale '' @ quoted locale)
                     (Some (thrown ''Failed to fetch fallback'' locale x))), w1))"

text \<open>The recovery callback \<^verbatim>\<open>performLoad\<close> hands to \<^verbatim>\<open>handleError\<close>. A payload it returns is
  an object, which counts as true.\<close>

definition load_recovery :: "network \<Rightarrow> Section option \<Rightarrow> recoveryFunction" where
  "load_recovery net section strategy w =
     (if strategy_type strategy = Fallback \<and> truthy (fallbackLocale strategy)
      then (case loadFallback net (str_of (fallbackLocale strategy)) section w of
              (Inr d, w') \<Rightarrow> (Returned True, w')
            | (Inl e, w') \<Rightarrow> (Threw, w'))
      else (Returned False, w))"

text \<open>\<^verbatim>\<open>performLoad\<close> from the point where the answer to its request has arrived.\<close>

definition performLoad_continue ::
  "network \<Rightarrow> int \<Rightarrow> Locale \<Rightarrow> Section option \<Rightarrow> response \<Rightarrow> System
     \<Rightarrow> (js_error + json) \<times> System" where
  "performLoad_continue net now locale section resp w =
     (case resp of
        Json fullData \<Rightarrow>
          (let d = extract_section section fullData
           in (Inr d,
               w\<lparr>cacheManager :=
                    (if truthy section
                     then setSectionCache now locale (str_of section) d (cacheManager w)
                     else setLocaleCache now locale d (cacheManager w))\<rparr>))
      | Failed x \<Rightarrow>
          (let error = thrown ''Failed to fetch'' locale x;
               (recoverySuccess, w1) =
                  handleError error
                    \<lparr>ctx_locale = Some locale, ctx_key = None, ctx_section = section,
                     ctx_module = None, ctx_operation = ''load_module''\<rparr>
                    (Some (load_recovery net section)) w
           in if recoverySuccess
              then loadFallback net (config_fallbackLocale I18N_CONFIG) section w1
              else (Inl (new_TranslationLoadError locale
                           (''Failed to load ''
                              @ (if truthy section then ''section '' @ quoted (str_of section)
                                 else ''translations'')
                              @ '' for locale '' @ quoted locale)
                           (Some error)), w1)))"

definition performLoad ::
  "network \<Rightarrow> int \<Rightarrow> Locale \<Rightarrow> Section option \<Rightarrow> System \<Rightarrow> (js_error + json) \<times> System" where
  "performLoad net now locale section w =
     (let (resp, w1) = fetch net locale w
      in performLoad_continue net now locale section resp w1)"

text \<open>
  \<^verbatim>\<open>load\<close> runs without interruption up to its \<^verbatim>\<open>await\<close>: it has then returned data from the
  cache, or joined the promise in flight for its key, or called \<^verbatim>\<open>performLoad\<close>, which has
  issued the request, and registered the new promise. \<open>load_start\<close> is that part. The
  rest runs when the answer to the request arrives: \<open>load_settle\<close> is \<^verbatim>\<open>performLoad\<close> after
  its first \<^verbatim>\<open>await\<close> followed by the \<^verbatim>\<open>loadingPromises.delete\<close> of \<^verbatim>\<open>load\<close>, taken as one
  step.
\<close>

datatype load_handle = Cached json | Started nat | Joined nat

definition dedup_key :: "Locale \<Rightarrow> Section option \<Rightarrow> string" where
  "dedup_key locale section =
     (if truthy section then locale @ '':'' @ str_of section else locale)"

text \<open>The cache check of \<^verbatim>\<open>load\<close>: the section tier when a section is asked for, the locale
  tier otherwise.\<close>

definition cache_lookup ::
  "int \<Rightarrow> Locale \<Rightarrow> Section option \<Rightarrow> TranslationCacheManager
     \<Rightarrow> json CacheEntryImpl option \<times> TranslationCacheManager" where
  "cache_lookup now locale section cm =
     (if truthy section
      then getSectionCache now locale (str_of section) cm
      else getLocaleCache now locale cm)"

definition load_start ::
  "int \<Rightarrow> Locale \<Rightarrow> Section option \<Rightarrow> System \<Rightarrow> load_handle \<times> System" where
  "load_start now locale section w =
     (case Map_get (loadingPromises w) (dedup_key locale section) of
        Some p \<Rightarrow> (Joined p, w)
      | None \<Rightarrow>
          (let (cached, cm) = cache_lookup now locale section (cacheManager w);
               w1 = w\<lparr>cacheManager := cm\<rparr>
           in case cached of
                Some entry \<Rightarrow> (Cached (data entry), w1)
              | None \<Rightarrow>
                  (Started (nextPromise w1),
                   w1\<lparr>fetchLog := fetchLog w1 @ [locale],
                      loadingPromises :=
                        Map_set (dedup_key locale section) (nextPromise w1) (loadingPromises w1),
                      nextPromise := nextPromise w1 + 1\<rparr>)))"

definition load_settle ::
  "network \<Rightarrow> int \<Rightarrow> Locale \<Rightarrow> Section option \<Rightarrow> nat \<Rightarrow> response \<Rightarrow> System
     \<Rightarrow> (js_error + json) \<times> System" where
  "load_settle net now locale section p resp w =
     (let (result, w1) = performLoad_continue net now locale section resp w
      in (result,
          w1\<lparr>settled := Map_set p result (settled w1),
             loadingPromises := Map_delete (dedup_key locale section) (loadingPromises w1)\<rparr>))"



text \<open>
  One call of \<^verbatim>\<open>load\<close> run to its end with no other call in between: the answer to its
  request is the network's answer to the request with that number. A call that joins a
  promise already in flight receives that promise's outcome, \<open>None\<close> while it is pending.
\<close>

definition load ::
  "network \<Rightarrow> int \<Rightarrow> Locale \<Rightarrow> Section option \<Rightarrow> System
     \<Rightarrow> (js_error + json) option \<times> System" where
  "load net now locale section w =
     (case load_start now locale section w of
        (Cached d, w1) \<Rightarrow> (Some (Inr d), w1)
      | (Joined p, w1) \<Rightarrow> (Map_get (settled w1) p, w1)
      | (Started p, w1) \<Rightarrow>
          (let (result, w2) =
                 load_settle net now locale section p (net (length (fetchLog w)) locale) w1
           in (Some result, w2)))"

section \<open>\<^verbatim>\<open>KeyLevelLoader\<close>\<close>

text \<open>\<^verbatim>\<open>key.split('.')\<close>\<close>

fun split_on :: "char \<Rightarrow> string \<Rightarrow> string list" where
  "split_on c [] = [[]]"
| "split_on c (x # xs) =
     (if x = c then [] # split_on c xs
      else (case split_on c xs of
              [] \<Rightarrow> [[x]]
            | p # ps \<Rightarrow> (x # p) # ps))"

text \<open>
  The loop of \<^verbatim>\<open>extractKeyValue\<close>: \<open>None\<close> when it leaves by its \<^verbatim>\<open>else\<close> branch. A string or
  a value that is neither string nor object has no part to descend into. (The \<^verbatim>\<open>in\<close>
  operator also sees the members every object inherits, such as \<^verbatim>\<open>constructor\<close>; those
  are functions, which are neither objects to descend into nor strings to return, so a
  key that names one comes back as the key, as it does here where it is simply absent.)
\<close>

fun descend :: "json \<Rightarrow> string list \<Rightarrow> json option" where
  "descend v [] = Some v"
| "descend (JObj kv) (part # parts) =
     (case map_of kv part of None \<Rightarrow> None | Some v' \<Rightarrow> descend v' parts)"
| "descend v (part # parts) = None"

definition extractKeyValue :: "json \<Rightarrow> TranslationKey \<Rightarrow> string" where
  "extractKeyValue d key =
     (case descend d (split_on CHR ''.'' key) of
        Some (JStr s) \<Rightarrow> s
      | _ \<Rightarrow> key)"

definition loadKeyFromFallback ::
  "network \<Rightarrow> int \<Rightarrow> Locale \<Rightarrow> TranslationKey \<Rightarrow> System \<Rightarrow> string option \<times> System" where
  "loadKeyFromFallback net now locale key w =
     (case load net now locale None w of
        (Some (Inr localeData), w1) \<Rightarrow> (Some (extractKeyValue localeData key), w1)
      | (Some (Inl error), w1) \<Rightarrow> (Some key, w1)
      | (None, w1) \<Rightarrow> (None, w1))"

text \<open>The recovery callback of \<^verbatim>\<open>loadKey\<close>: the string it returns counts as true unless it
  is empty.\<close>

definition key_recovery :: "network \<Rightarrow> int \<Rightarrow> TranslationKey \<Rightarrow> recoveryFunction" where
  "key_recovery net now key strategy w =
     (if strategy_type strategy = Fallback \<and> truthy (fallbackLocale strategy)
      then (case loadKeyFromFallback net now (str_of (fallbackLocale strategy)) key w of
              (v, w') \<Rightarrow> (Returned (truthy v), w'))
      else (Returned False, w))"

definition loadKey ::
  "network \<Rightarrow> int \<Rightarrow> Locale \<Rightarrow> TranslationKey \<Rightarrow> System \<Rightarrow> string option \<times> System" where
  "loadKey net now locale key w =
     (let (cached, cm) = getKeyCache now locale key (cacheManager w);
          w0 = w\<lparr>cacheManager := cm\<rparr>
      in case cached of
           Some entry \<Rightarrow> (Some (data entry), w0)
         | None \<Rightarrow>
             (case load net now locale None w0 of
                (None, w1) \<Rightarrow> (None, w1)
              | (Some (Inr localeData), w1) \<Rightarrow>
                  (let v = extractKeyValue localeData key
                   in (Some v, w1\<lparr>cacheManager := setKeyCache now locale key v (cacheManager w1)\<rparr>))
              | (Some (Inl error), w1) \<Rightarrow>
                  (let (recoverySuccess, w2) =
                         handleError error
                           \<lparr>ctx_locale = Some locale, ctx_key = Some key, ctx_section = None,
                            ctx_module = None, ctx_operation = ''load_key''\<rparr>
                           (Some (key_recovery net now key)) w1
                   in if recoverySuccess
                      then loadKeyFromFallback net now (config_fallbackLocale I18N_CONFIG) key w2
                      else (Some key, w2))))"

text \<open>
  What the failure path of \<^verbatim>\<open>performLoad\<close> keeps: the cache manager and the in-flight map
  stay as they are, and requests are only added to the log.
\<close>

definition quiet :: "TranslationCacheManager \<Rightarrow> (string \<times> nat) list \<Rightarrow> Locale list \<Rightarrow> System \<Rightarrow> bool" where
  "quiet c lp base x = (cacheManager x = c \<and> loadingPromises x = lp
                         \<and> (\<exists>rest. fetchLog x = base @ rest))"

text \<open>
  Networks used to exercise the loader: every locale has a small document; in the first
  network the very first request fails and every later one succeeds, in the second every
  request for \<^verbatim>\<open>en\<close> fails and every other one succeeds.
\<close>

definition hello_doc :: "Locale \<Rightarrow> (string \<times> json) list" where
  "hello_doc locale = [(''common'', JObj [(''hello'', JStr (''Hello from '' @ locale))])]"

definition first_request_fails :: network where
  "first_request_fails i locale =
     (if i = 0 then Failed (Rejected ''Failed to fetch'') else Json (hello_doc locale))"

definition en_is_down :: network where
  "en_is_down i locale =
     (if locale = ''en'' then Failed (Rejected ''Failed to fetch'') else Json (hello_doc locale))"

text \<open>A document in which \<^verbatim>\<open>a.b\<close> exists and \<^verbatim>\<open>a.b.c\<close> does not, a network that serves it
  for every locale, and a network that serves a document that does have \<^verbatim>\<open>a.b.c\<close>.\<close>

definition doc_without_c :: "(string \<times> json) list" where
  "doc_without_c = [(''a'', JObj [(''b'', JObj [(''x'', JStr ''X'')])])]"

definition serves_without_c :: network where
  "serves_without_c i locale = Json doc_without_c"

definition serves_with_c :: network where
  "serves_with_c i locale = Json [(''a'', JObj [(''b'', JObj [(''c'', JStr ''Hello'')])])]"

text \<open>The default strategy table with the \<^verbatim>\<open>translation_load\<close> strategy pointed at the
  configured fallback locale.\<close>

definition consistent_strategies :: System where
  "consistent_strategies =
     (new_System testCacheConfig)\<lparr>recoveryStrategies :=
        setRecoveryStrategy ''translation_load''
          \<lparr>strategy_type = Fallback, fallbackLocale = Some ''vi'', retryCount = None,
           retryDelay = None\<rparr>
          initializeDefaultStrategies\<rparr>"

section \<open>\<^verbatim>\<open>I18nStateManager\<close>\<close>

text \<open>
  Of the reactive state, \<^verbatim>\<open>setCurrentLocale\<close> reads the supported locales and writes the
  current locale. An observer is an object that may or may not have an \<^verbatim>\<open>onLocaleChange\<close>
  method; what the method does is the observer's business (an exception it throws is
  caught by \<^verbatim>\<open>notifyObservers\<close>), so a call is recorded in \<open>delivered\<close> with the observer's
  name and the argument. \<open>localStorage\<close> is \<open>None\<close> where the global is undefined;
  \<^verbatim>\<open>setItem\<close> is taken to succeed.
\<close>

record I18nObserver =
  observer_name :: string
  has_onLocaleChange :: bool

record I18nStateManager =
  currentLocale :: Locale
  state_supportedLocales :: "Locale list"
  observers :: "I18nObserver list"
  delivered :: "(string \<times> Locale) list"
  localStorage :: "(string \<times> string) list option"

definition new_I18nStateManager :: "(string \<times> string) list option \<Rightarrow> I18nStateManager" where
  "new_I18nStateManager storage =
     \<lparr>currentLocale = defaultLocale I18N_CONFIG,
      state_supportedLocales = supportedLocales I18N_CONFIG,
      observers = [],
      delivered = [],
      localStorage = storage\<rparr>"

definition isLocaleSupported :: "Locale \<Rightarrow> I18nStateManager \<Rightarrow> bool" where
  "isLocaleSupported locale st = (locale \<in> set (state_supportedLocales st))"

definition addObserver :: "I18nObserver \<Rightarrow> I18nStateManager \<Rightarrow> I18nStateManager" where
  "addObserver obs st =
     (if obs \<in> set (observers st) then st else st\<lparr>observers := observers st @ [obs]\<rparr>)"

definition notify_onLocaleChange :: "Locale \<Rightarrow> I18nStateManager \<Rightarrow> I18nStateManager" where
  "notify_onLocaleChange locale st =
     st\<lparr>delivered :=
          delivered st
            @ map (\<lambda>obs. (observer_name obs, locale)) (filter has_onLocaleChange (observers st))\<rparr>"

text \<open>The first component is the exception thrown, \<open>None\<close> when the call returns.\<close>

definition setCurrentLocale ::
  "Locale \<Rightarrow> I18nStateManager \<Rightarrow> js_error option \<times> I18nStateManager" where
  "setCurrentLocale locale st =
     (if \<not> isLocaleSupported locale st
      then (Some (Error (''Unsupported locale: '' @ locale)), st)
      else (let st1 = st\<lparr>currentLocale := locale\<rparr>;
                st2 = notify_onLocaleChange locale st1
            in (None,
                (case localStorage st2 of
                   None \<Rightarrow> st2
                 | Some items \<Rightarrow>
                     st2\<lparr>localStorage := Some (Map_set ''preferred-locale'' locale items)\<rparr>))))"

section \<open>The facade: \<^verbatim>\<open>EnterpriseI18nSystem.getTranslation\<close>\<close>


text \<open>A state manager in a browser with empty storage and one observer, and a translation
  function that always throws.\<close>

definition logger :: I18nObserver where
  "logger = \<lparr>observer_name = ''logger'', has_onLocaleChange = True\<rparr>"

definition browser_state :: I18nStateManager where
  "browser_state = addObserver logger (new_I18nStateManager (Some []))"


section \<open>Facts about the \<^verbatim>\<open>Map\<close> model\<close>

lemma map_of_Map_delete: "map_of (Map_delete k m) k' = (if k' = k then None else map_of m k')"
  by (induction m) (auto simp: Map_delete_def)

lemma map_of_Map_set: "map_of (Map_set k v m) k' = (if k' = k then Some v else map_of m k')"
  by (induction m) auto


lemma cleanup_deletes:
  "foldl (\<lambda>m k. Map_delete k m) m ks = filter (\<lambda>p. fst p \<notin> set ks) m"
proof (induction ks arbitrary: m)
  case Nil
  then show ?case by simp
next
  case (Cons k ks)
  have "filter (\<lambda>p. fst p \<notin> set ks) (Map_delete k m) = filter (\<lambda>p. fst p \<notin> set (k # ks)) m"
    by (induction m) (auto simp: Map_delete_def)
  with Cons show ?case by simp
qed








lemma cleanup_filter:
  assumes "distinct (map fst m)"
  shows "foldl (\<lambda>m k. Map_delete k m) m (expiredKeys now m) = filter (\<lambda>p. isValid now (snd p)) m"
proof -
  have "fst p \<notin> set (expiredKeys now m) \<longleftrightarrow> isValid now (snd p)" if "p \<in> set m" for p
  proof
    assume "fst p \<notin> set (expiredKeys now m)"
    with that show "isValid now (snd p)" by (force simp: expiredKeys_def isValid_def)
  next
    assume v: "isValid now (snd p)"
    show "fst p \<notin> set (expiredKeys now m)"
    proof
      assume "fst p \<in> set (expiredKeys now m)"
      then obtain q where q: "q \<in> set m" "isExpired now (snd q)" "fst q = fst p"
        by (auto simp: expiredKeys_def)
      with assms that have "q = p"
        by (metis eq_key_imp_eq_value prod.collapse)
      with q v show False by (simp add: isValid_def)
    qed
  qed
  then show ?thesis unfolding cleanup_deletes by (intro filter_cong) auto
qed










lemma maxSize_Memory_set [simp]: "maxSize (Memory_set now key d t s) = maxSize s"
  by (simp add: Memory_set_def evictLeastUsed_def Let_def split: option.splits)

lemma maxSize_LRU_set [simp]: "maxSize (LRU_set now key d t s) = maxSize s"
  by (simp add: LRU_set_def LRU_evict_def Let_def split: list.splits)

lemma maxSize_Memory_get [simp]: "maxSize (snd (Memory_get now key s)) = maxSize s"
  by (simp add: Memory_get_def split: option.splits)

lemma maxSize_LRU_get [simp]: "maxSize (snd (LRU_get now key s)) = maxSize s"
  by (simp add: LRU_get_def split: option.splits)

lemma maxSize_cleanup [simp]: "maxSize (cleanup now s) = maxSize s"
  by (simp add: cleanup_def)


















lemma tier_keys_nonempty:
  "locale_key locale \<noteq> [] \<and> section_key locale sec \<noteq> [] \<and> key_key locale key \<noteq> []"
  by (simp add: locale_key_def section_key_def key_key_def)


section \<open>Unfolding sets for evaluation\<close>

lemmas cache_defs = Memory_get_def Memory_set_def LRU_get_def LRU_set_def LRU_evict_def
  evictLeastUsed_def has_def clear_def cleanup_def Map_get_def Map_delete_def
  new_CacheEntryImpl_def isExpired_def isValid_def incrementHits_def

lemmas manager_defs = new_TranslationCacheManager_def new_CachingStrategy_def
  getLocaleCache_def setLocaleCache_def hasLocaleCache_def
  getSectionCache_def setSectionCache_def hasSectionCache_def
  getKeyCache_def setKeyCache_def hasKeyCache_def clearAll_def clearLocale_def
  locale_key_def section_key_def key_key_def

lemma get_after_delete:
  "fst (Memory_get now' key (s\<lparr>cache := Map_delete key (cache s)\<rparr>)) = None"
  "fst (LRU_get now' key (s\<lparr>cache := Map_delete key (cache s)\<rparr>)) = None"
  "\<not> has now' key (s\<lparr>cache := Map_delete key (cache s)\<rparr>)"
  by (simp_all add: Memory_get_def LRU_get_def has_def Map_get_def map_of_Map_delete)


section \<open>The retry loop\<close>

lemma retry_loop_done: "m < a \<Longrightarrow> retry_loop a m d f s w = (False, w, [])"
  by (subst retry_loop.simps) simp

lemma retry_loop_success:
  "a \<le> m \<Longrightarrow> f s w = (Returned True, w1) \<Longrightarrow>
   retry_loop a m d f s w = (True, w1, [Invoked (Returned True)])"
  by (subst retry_loop.simps) simp

lemma retry_loop_again:
  assumes "a \<le> m" and "f s w = (r, w1)" and "r \<noteq> Returned True"
    and "retry_loop (a + 1) m d f s w1 = (b, w2, tr)"
  shows "retry_loop a m d f s w =
           (b, w2, Invoked r # (if a < m then [Waited d] else []) @ tr)"
proof (cases r)
  case (Returned x)
  with assms(3) have "x = False" by simp
  with assms Returned show ?thesis by (subst retry_loop.simps) simp
next
  case Threw
  with assms show ?thesis by (subst retry_loop.simps) simp
qed





lemmas recovery_defs = executeRecovery_def executeStrategy_def executeRetryStrategy_def
  executeFallbackStrategy_def getRecoveryStrategy_def setRecoveryStrategy_def
  initializeDefaultStrategies_def skip_strategy_def new_NetworkError_def
  new_TranslationLoadError_def new_System_def Map_get_def trackRecoveryAttempt_def
  new_ErrorTracker_def


lemmas state_defs = setCurrentLocale_def isLocaleSupported_def notify_onLocaleChange_def
  new_I18nStateManager_def addObserver_def I18N_CONFIG_def


section \<open>Invariants carried through recovery\<close>

lemma retry_loop_invariant:
  assumes "\<And>s x. Q x \<Longrightarrow> Q (snd (f s x))"
  shows "Q w \<Longrightarrow> retry_loop a m d f s w = (b, w', tr) \<Longrightarrow> Q w'"
proof (induction "nat (m + 1 - a)" arbitrary: a w b w' tr)
  case 0
  then have "m < a" by simp
  from retry_loop_done [OF this] "0.prems" show ?case by simp
next
  case (Suc n)
  then have le: "a \<le> m" by simp
  obtain r w1 where f: "f s w = (r, w1)" by (cases "f s w")
  with assms [of w s] Suc.prems(1) have q1: "Q w1" by simp
  show ?case
  proof (cases "r = Returned True")
    case True
    with f have "f s w = (Returned True, w1)" by simp
    from retry_loop_success [of a m f s w w1 d, OF le this] Suc.prems q1
    show ?thesis by simp
  next
    case False
    obtain b2 w2 tr2 where rec: "retry_loop (a + 1) m d f s w1 = (b2, w2, tr2)"
      by (cases "retry_loop (a + 1) m d f s w1")
    from Suc.hyps(2) have n: "n = nat (m + 1 - (a + 1))" by simp
    from Suc.hyps(1) [OF n q1 rec] have "Q w2" .
    with retry_loop_again [of a m f s w r w1 d b2 w2 tr2, OF le f False rec] Suc.prems
    show ?thesis by simp
  qed
qed

lemma executeStrategy_invariant:
  assumes "\<And>s x. Q x \<Longrightarrow> Q (snd (f s x))" and "Q w"
    and "executeStrategy S f w = (b, w', tr)"
  shows "Q w'"
proof (cases "strategy_type S")
  case Retry
  with assms(3) retry_loop_invariant [of Q f w _ _ _ S b w' tr, OF assms(1) assms(2)]
  show ?thesis by (simp add: executeStrategy_def executeRetryStrategy_def)
next
  case Fallback
  obtain r w1 where f: "f S w = (r, w1)" by (cases "f S w")
  with assms(1) [of w S] assms(2) have "Q w1" by simp
  with Fallback f assms(3) show ?thesis
    by (cases r) (auto simp: executeStrategy_def executeFallbackStrategy_def)
next
  case Skip
  with assms(2,3) show ?thesis by (simp add: executeStrategy_def)
next
  case Abort
  with assms(2,3) show ?thesis by (simp add: executeStrategy_def)
qed

lemma handleError_invariant:
  assumes "\<And>s x. Q x \<Longrightarrow> Q (snd (f s x))"
    and "\<And>x t. Q x \<Longrightarrow> Q (x\<lparr>errorTracker := t\<rparr>)"
    and "Q w" and "handleError error context (Some f) w = (b, w')"
  shows "Q w'"
proof -
  let ?e = "wrapError error context"
  let ?w1 = "w\<lparr>errorTracker := trackError ?e (errorTracker w)\<rparr>"
  let ?S = "getRecoveryStrategy (recoveryStrategies ?w1) ?e"
  from assms(2,3) have q1: "Q ?w1" by simp
  obtain b2 w2 tr where ex: "executeStrategy ?S f ?w1 = (b2, w2, tr)"
    by (cases "executeStrategy ?S f ?w1")
  from executeStrategy_invariant [of Q f ?w1 ?S b2 w2 tr, OF assms(1) q1 ex] have "Q w2" .
  with assms(2) have "Q (w2\<lparr>errorTracker := trackRecoveryAttempt b2 (errorTracker w2)\<rparr>)" by simp
  moreover from ex
  have "handleError error context (Some f) w =
          (b2, w2\<lparr>errorTracker := trackRecoveryAttempt b2 (errorTracker w2)\<rparr>)"
    by (simp add: handleError_def executeRecovery_def Let_def)
  with assms(4)
  have "(b, w') = (b2, w2\<lparr>errorTracker := trackRecoveryAttempt b2 (errorTracker w2)\<rparr>)"
    by (rule trans [OF sym])
  then have "w' = w2\<lparr>errorTracker := trackRecoveryAttempt b2 (errorTracker w2)\<rparr>"
    by (simp only: prod.inject)
  ultimately show ?thesis by (simp only:)
qed

lemma quiet_loadFallback: "quiet c lp base x \<Longrightarrow> quiet c lp base (snd (loadFallback net l sec x))"
  by (cases "net (length (fetchLog x)) l")
    (auto simp: quiet_def loadFallback_def fetch_def)

lemma quiet_load_recovery:
  "quiet c lp base x \<Longrightarrow> quiet c lp base (snd (load_recovery net sec s x))"
  using quiet_loadFallback [of c lp base x net "str_of (fallbackLocale s)" sec]
  by (cases "loadFallback net (str_of (fallbackLocale s)) sec x";
      cases "fst (loadFallback net (str_of (fallbackLocale s)) sec x)")
    (auto simp: load_recovery_def)

lemma quiet_tracker: "quiet c lp base x \<Longrightarrow> quiet c lp base (x\<lparr>errorTracker := t\<rparr>)"
  by (simp add: quiet_def)

lemma quiet_performLoad_failed:
  assumes "quiet c lp base w"
  shows "quiet c lp base (snd (performLoad_continue net now locale section (Failed x) w))"
proof -
  let ?ctx = "\<lparr>ctx_locale = Some locale, ctx_key = None, ctx_section = section,
               ctx_module = None, ctx_operation = ''load_module''\<rparr>"
  let ?err = "thrown ''Failed to fetch'' locale x"
  obtain b w1 where h: "handleError ?err ?ctx (Some (load_recovery net section)) w = (b, w1)"
    by (cases "handleError ?err ?ctx (Some (load_recovery net section)) w")
  have q1: "quiet c lp base w1"
    by (rule handleError_invariant [of "quiet c lp base" "load_recovery net section" w ?err ?ctx b w1,
          OF quiet_load_recovery quiet_tracker assms h])
  show ?thesis
  proof (cases b)
    case True
    with h quiet_loadFallback [OF q1, of net "config_fallbackLocale I18N_CONFIG" "section"]
    show ?thesis by (simp add: performLoad_continue_def)
  next
    case False
    with h q1 show ?thesis by (simp add: performLoad_continue_def)
  qed
qed


section \<open>Cache lookups that miss\<close>

lemma isExpired_mono: "isExpired now e \<Longrightarrow> now \<le> now' \<Longrightarrow> isExpired now' e"
  by (simp add: isExpired_def)

lemma Memory_get_miss_iff:
  "fst (Memory_get now k s) = None \<longleftrightarrow>
     (case Map_get (cache s) k of None \<Rightarrow> True | Some e \<Rightarrow> isExpired now e)"
  by (simp add: Memory_get_def split: option.splits)

lemma LRU_get_miss_iff:
  "fst (LRU_get now k s) = None \<longleftrightarrow>
     (case Map_get (cache s) k of None \<Rightarrow> True | Some e \<Rightarrow> isExpired now e)"
  by (simp add: LRU_get_def split: option.splits)

lemma Map_delete_absent: "map_of m k = None \<Longrightarrow> Map_delete k m = m"
  by (induction m) (auto simp: Map_delete_def split: if_splits)

lemma Memory_get_miss_cache:
  "fst (Memory_get now k s) = None \<Longrightarrow>
     snd (Memory_get now k s) = s\<lparr>cache := Map_delete k (cache s)\<rparr>"
  by (auto simp: Memory_get_def Map_get_def Map_delete_absent split: option.splits if_splits)

lemma LRU_get_miss_cache:
  "fst (LRU_get now k s) = None \<Longrightarrow>
     snd (LRU_get now k s) = s\<lparr>cache := Map_delete k (cache s)\<rparr>"
  by (auto simp: LRU_get_def Map_get_def Map_delete_absent split: option.splits if_splits)

lemma has_after_miss:
  assumes "case Map_get (cache s) k of None \<Rightarrow> True | Some e \<Rightarrow> isExpired now e"
  shows "has now key (s\<lparr>cache := Map_delete k (cache s)\<rparr>) = has now key s"
  using assms
  by (auto simp: has_def Map_get_def map_of_Map_delete isValid_def split: option.splits)

lemma miss_after_miss:
  assumes "case Map_get (cache s) k2 of None \<Rightarrow> True | Some e \<Rightarrow> isExpired now e"
    and "now \<le> now'"
  shows "case Map_get (cache (s\<lparr>cache := Map_delete k (cache s)\<rparr>)) k2 of
           None \<Rightarrow> True | Some e \<Rightarrow> isExpired now' e"
  using assms
  by (auto simp: Map_get_def map_of_Map_delete isExpired_mono split: option.splits)

lemma cache_lookup_fst:
  "fst (cache_lookup now locale sec cm) =
     (if truthy sec then fst (LRU_get now (section_key locale (str_of sec)) (sectionCache cm))
      else fst (Memory_get now (locale_key locale) (localeCache cm)))"
  by (simp add: cache_lookup_def getSectionCache_def getLocaleCache_def case_prod_beta)

lemma cache_lookup_snd:
  "snd (cache_lookup now locale sec cm) =
     (if truthy sec
      then cm\<lparr>sectionCache := snd (LRU_get now (section_key locale (str_of sec)) (sectionCache cm))\<rparr>
      else cm\<lparr>localeCache := snd (Memory_get now (locale_key locale) (localeCache cm))\<rparr>)"
  by (simp add: cache_lookup_def getSectionCache_def getLocaleCache_def case_prod_beta)

lemma cache_lookup_miss:
  assumes "fst (cache_lookup now locale sec cm) = None"
  shows "snd (cache_lookup now locale sec cm) =
           (if truthy sec
            then cm\<lparr>sectionCache :=
                     (sectionCache cm)\<lparr>cache := Map_delete (section_key locale (str_of sec))
                                                  (cache (sectionCache cm))\<rparr>\<rparr>
            else cm\<lparr>localeCache :=
                     (localeCache cm)\<lparr>cache := Map_delete (locale_key locale)
                                                 (cache (localeCache cm))\<rparr>\<rparr>)"
  using assms
  by (simp add: cache_lookup_fst cache_lookup_snd LRU_get_miss_cache Memory_get_miss_cache
      split: if_splits)

lemma cache_lookup_miss_iff:
  "fst (cache_lookup now locale sec cm) = None \<longleftrightarrow>
     (if truthy sec
      then (case Map_get (cache (sectionCache cm)) (section_key locale (str_of sec)) of
              None \<Rightarrow> True | Some e \<Rightarrow> isExpired now e)
      else (case Map_get (cache (localeCache cm)) (locale_key locale) of
              None \<Rightarrow> True | Some e \<Rightarrow> isExpired now e))"
  by (simp add: cache_lookup_fst LRU_get_miss_iff Memory_get_miss_iff)

lemma cache_lookup_views:
  assumes "fst (cache_lookup now locale sec cm) = None"
  shows "hasLocaleCache now l (snd (cache_lookup now locale sec cm)) = hasLocaleCache now l cm"
    and "hasSectionCache now l s (snd (cache_lookup now locale sec cm)) = hasSectionCache now l s cm"
    and "keyCache (snd (cache_lookup now locale sec cm)) = keyCache cm"
  using assms
    has_after_miss [where s = "sectionCache cm" and k = "section_key locale (str_of sec)"
      and now = now]
    has_after_miss [where s = "localeCache cm" and k = "locale_key locale" and now = now]
  by (simp_all add: cache_lookup_miss cache_lookup_miss_iff hasLocaleCache_def
      hasSectionCache_def split: if_splits)

lemma cache_lookup_still_miss:
  assumes "fst (cache_lookup now locale sec cm) = None"
    and "fst (cache_lookup now l sec cm) = None" and "now \<le> now'"
  shows "fst (cache_lookup now' l sec (snd (cache_lookup now locale sec cm))) = None"
  using assms(2,3)
    miss_after_miss [where s = "sectionCache cm" and ?k2.0 = "section_key l (str_of sec)"
      and now = now and now' = now' and k = "section_key locale (str_of sec)"]
    miss_after_miss [where s = "localeCache cm" and ?k2.0 = "locale_key l"
      and now = now and now' = now' and k = "locale_key locale"]
  by (simp add: cache_lookup_miss [OF assms(1)] cache_lookup_miss_iff split: if_splits)

lemma cache_lookup_gone:
  assumes "fst (cache_lookup now locale sec cm) = None"
  shows "fst (cache_lookup now' locale sec (snd (cache_lookup now locale sec cm))) = None"
  by (simp add: cache_lookup_miss [OF assms] cache_lookup_miss_iff Map_get_def
      map_of_Map_delete)


section \<open>One call of load that misses the cache\<close>

lemma load_start_miss:
  assumes "Map_get (loadingPromises w) (dedup_key locale sec) = None"
    and "fst (cache_lookup now locale sec (cacheManager w)) = None"
  shows "load_start now locale sec w =
           (Started (nextPromise w),
            w\<lparr>cacheManager := snd (cache_lookup now locale sec (cacheManager w)),
              fetchLog := fetchLog w @ [locale],
              loadingPromises := Map_set (dedup_key locale sec) (nextPromise w) (loadingPromises w),
              nextPromise := nextPromise w + 1\<rparr>)"
  using assms by (simp add: load_start_def case_prod_beta)



lemma load_miss:
  assumes "Map_get (loadingPromises w) (dedup_key locale sec) = None"
    and "fst (cache_lookup now locale sec (cacheManager w)) = None"
  shows "load net now locale sec w =
           (let w1 = w\<lparr>cacheManager := snd (cache_lookup now locale sec (cacheManager w)),
                      fetchLog := fetchLog w @ [locale],
                      loadingPromises :=
                        Map_set (dedup_key locale sec) (nextPromise w) (loadingPromises w),
                      nextPromise := nextPromise w + 1\<rparr>;
                (result, w2) = load_settle net now locale sec (nextPromise w)
                                 (net (length (fetchLog w)) locale) w1
            in (Some result, w2))"
  by (simp add: load_def load_start_miss [OF assms] Let_def)

lemma load_miss_failed:
  assumes "loadingPromises w = []"
    and "fst (cache_lookup now locale sec (cacheManager w)) = None"
    and "net (length (fetchLog w)) locale = Failed x"
  shows "cacheManager (snd (load net now locale sec w)) =
           snd (cache_lookup now locale sec (cacheManager w))
       \<and> loadingPromises (snd (load net now locale sec w)) = []
       \<and> (\<exists>rest. fetchLog (snd (load net now locale sec w)) = fetchLog w @ locale # rest)"
proof -
  let ?c = "snd (cache_lookup now locale sec (cacheManager w))"
  let ?lp = "[(dedup_key locale sec, nextPromise w)]"
  let ?w1 = "w\<lparr>cacheManager := ?c, fetchLog := fetchLog w @ [locale],
               loadingPromises := Map_set (dedup_key locale sec) (nextPromise w) (loadingPromises w),
               nextPromise := nextPromise w + 1\<rparr>"
  from assms(1) have nf: "Map_get (loadingPromises w) (dedup_key locale sec) = None"
    by (simp add: Map_get_def)
  have q1: "quiet ?c ?lp (fetchLog w @ [locale]) ?w1"
    using assms(1) by (simp add: quiet_def)
  obtain r w2 where pc: "performLoad_continue net now locale sec (Failed x) ?w1 = (r, w2)"
    by (cases "performLoad_continue net now locale sec (Failed x) ?w1")
  from quiet_performLoad_failed [OF q1, of net now "locale" sec x] pc
  have q2: "quiet ?c ?lp (fetchLog w @ [locale]) w2" by simp
  from pc assms(3) have "snd (load net now locale sec w) =
      w2\<lparr>settled := Map_set (nextPromise w) r (settled w2),
         loadingPromises := Map_delete (dedup_key locale sec) (loadingPromises w2)\<rparr>"
    by (simp add: load_miss [OF nf assms(2)] load_settle_def)
  with q2 show ?thesis by (auto simp: quiet_def Map_delete_def)
qed

lemma load_miss_fetches:
  assumes "loadingPromises w = []"
    and "fst (cache_lookup now locale sec (cacheManager w)) = None"
  shows "\<exists>rest. fetchLog (snd (load net now locale sec w)) = fetchLog w @ locale # rest"
proof (cases "net (length (fetchLog w)) locale")
  case (Failed x)
  from load_miss_failed [of w now "locale" sec net x, OF assms this] show ?thesis by blast
next
  case (Json fullData)
  from assms(1) have nf: "Map_get (loadingPromises w) (dedup_key locale sec) = None"
    by (simp add: Map_get_def)
  from Json show ?thesis
    by (simp add: load_miss [OF nf assms(2)] load_settle_def performLoad_continue_def Let_def)
qed


lemma performLoad_split:
  "performLoad net now locale sec w =
     performLoad_continue net now locale sec (net (length (fetchLog w)) locale)
       (w\<lparr>fetchLog := fetchLog w @ [locale]\<rparr>)"
  by (simp add: performLoad_def fetch_def)


lemmas loader_defs = load_def load_start_def load_settle_def performLoad_continue_def
  loadFallback_def load_recovery_def fetch_def handleError_def wrapError_def trackError_def
  dedup_key_def cache_lookup_def extract_section_def bump_def count_of_def
  I18N_CONFIG_def quoted_def filePath_def

lemmas key_defs = loadKey_def loadKeyFromFallback_def key_recovery_def extractKeyValue_def






section \<open>C1: one request per target in flight\<close>



section \<open>C2: \<^verbatim>\<open>clearLocale\<close> and the other locales\<close>

text \<open>
  Claim C2 says that \<^verbatim>\<open>clearLocale('en')\<close> leaves the entries of \<^verbatim>\<open>vi\<close> in place. The code
  clears every tier whole. In the scenario of the claim (payloads for \<^verbatim>\<open>en\<close> and \<^verbatim>\<open>vi\<close>
  cached at every tier), the entries of \<^verbatim>\<open>vi\<close> are there before the call and gone after
  it: \<^verbatim>\<open>hasLocaleCache('vi')\<close> and \<^verbatim>\<open>hasSectionCache('vi', 'common')\<close> are both
  false, at whatever clock reading the scenario runs.
\<close>

theorem clearLocale_clears_other_locales:
  "hasLocaleCache now ''vi'' (en_vi_cached now)
   \<and> hasSectionCache now ''vi'' ''common'' (en_vi_cached now)
   \<and> hasLocaleCache now ''vi'' (clearLocale ''en'' (en_vi_cached now)) = False
   \<and> hasSectionCache now ''vi'' ''common'' (clearLocale ''en'' (en_vi_cached now)) = False"
  by (simp add: en_vi_cached_def testCacheConfig_def manager_defs cache_defs)

text \<open>For every manager and every argument, \<^verbatim>\<open>clearLocale\<close> does what \<^verbatim>\<open>clearAll\<close> does.\<close>

lemma clearLocale_is_clearAll: "clearLocale locale m = clearAll m"
  by (simp add: clearLocale_def clearAll_def)

section \<open>C3: a missing key and the key cache\<close>

text \<open>
  Claim C3 says that a key whose extraction fails is returned as it is and is not written
  to the key tier. \<^verbatim>\<open>loadKey\<close> does return the key, but it calls \<^verbatim>\<open>setKeyCache\<close> with
  whatever \<^verbatim>\<open>extractKeyValue\<close> returned. On a fresh system, with a document for \<^verbatim>\<open>en\<close>
  that has \<^verbatim>\<open>a.b\<close> but not \<^verbatim>\<open>a.b.c\<close>: \<^verbatim>\<open>loadKey('en', 'a.b.c')\<close> returns \<^verbatim>\<open>'a.b.c'\<close>;
  afterwards \<^verbatim>\<open>hasKeyCache('en', 'a.b.c')\<close> is true and the entry holds the raw key; and a
  second \<^verbatim>\<open>loadKey('en', 'a.b.c')\<close> returns the raw key from that entry, its only effect
  being the hit on the key tier: no load, no extraction, even over a network that now
  serves a document with the key.
\<close>

theorem loadKey_caches_the_raw_key:
  "fst (loadKey serves_without_c 0 ''en'' ''a.b.c'' (new_System testCacheConfig)) = Some ''a.b.c''
   \<and> hasKeyCache 0 ''en'' ''a.b.c''
         (cacheManager (snd (loadKey serves_without_c 0 ''en'' ''a.b.c'' (new_System testCacheConfig))))
   \<and> map_option data (fst (getKeyCache 0 ''en'' ''a.b.c''
         (cacheManager (snd (loadKey serves_without_c 0 ''en'' ''a.b.c'' (new_System testCacheConfig))))))
       = Some ''a.b.c''
   \<and> loadKey serves_with_c 1 ''en'' ''a.b.c''
         (snd (loadKey serves_without_c 0 ''en'' ''a.b.c'' (new_System testCacheConfig)))
       = (Some ''a.b.c'',
          (snd (loadKey serves_without_c 0 ''en'' ''a.b.c'' (new_System testCacheConfig)))
            \<lparr>cacheManager := snd (getKeyCache 1 ''en'' ''a.b.c''
               (cacheManager (snd (loadKey serves_without_c 0 ''en'' ''a.b.c''
                  (new_System testCacheConfig)))))\<rparr>)"
proof -
  have ld: "loadKey serves_without_c 0 ''en'' ''a.b.c'' (new_System testCacheConfig) =
      (Some ''a.b.c'',
       (new_System testCacheConfig)
         \<lparr>cacheManager :=
            (new_TranslationCacheManager testCacheConfig)
              \<lparr>localeCache :=
                 \<lparr>cache = [(''locale:en'',
                     \<lparr>data = JObj doc_without_c, timestamp = 0, ttl = 1000, hits = 0\<rparr>)],
                  maxSize = 5\<rparr>,
               keyCache :=
                 \<lparr>cache = [(''key:en:a.b.c'',
                     \<lparr>data = ''a.b.c'', timestamp = 0, ttl = 1000, hits = 0\<rparr>)],
                  maxSize = 10\<rparr>\<rparr>,
          nextPromise := 1,
          settled := [(0, Inr (JObj doc_without_c))],
          fetchLog := [''en'']\<rparr>)"
    by (simp add: key_defs loader_defs manager_defs cache_defs serves_without_c_def
        doc_without_c_def testCacheConfig_def new_System_def Let_def)
  show ?thesis
    unfolding ld
    by (simp add: key_defs manager_defs cache_defs)
qed

section \<open>C4: time to live\<close>

text \<open>
  Claim C4. For an entry \<open>e\<close> stored under \<open>key\<close>, in either strategy (so in every tier):
  \<^verbatim>\<open>get(key)\<close> returns an entry exactly when \<open>now - timestamp e \<le> ttl e\<close>, and so does
  \<^verbatim>\<open>has(key)\<close>. When the entry is expired, \<^verbatim>\<open>get\<close> deletes it: every later \<^verbatim>\<open>has\<close> and
  \<^verbatim>\<open>get\<close> of the key, at any clock reading, finds nothing. \<^verbatim>\<open>cleanup\<close> keeps exactly the
  entries that are valid at its clock reading, so an expired entry is not among the keys
  afterwards and the size it reports is smaller.
\<close>

theorem cache_ttl_expiry:
  assumes "distinct (map fst (cache s))" and "Map_get (cache s) key = Some e"
  shows "((fst (Memory_get now key s) \<noteq> None) = (now - timestamp e \<le> ttl e))
       \<and> ((fst (LRU_get now key s) \<noteq> None) = (now - timestamp e \<le> ttl e))
       \<and> (has now key s = (now - timestamp e \<le> ttl e))
       \<and> (ttl e < now - timestamp e \<longrightarrow>
            (\<forall>now'. \<not> has now' key (snd (Memory_get now key s))
                  \<and> fst (Memory_get now' key (snd (Memory_get now key s))) = None
                  \<and> \<not> has now' key (snd (LRU_get now key s))
                  \<and> fst (LRU_get now' key (snd (LRU_get now key s))) = None)
            \<and> \<not> Map_has (cache (cleanup now s)) key
            \<and> cache_size (cleanup now s) < cache_size s)
       \<and> cache (cleanup now s) = filter (\<lambda>p. isValid now (snd p)) (cache s)"
proof -
  have a: "(fst (Memory_get now key s) \<noteq> None) = (now - timestamp e \<le> ttl e)"
    using assms(2) by (auto simp: Memory_get_def isExpired_def)
  have b: "(fst (LRU_get now key s) \<noteq> None) = (now - timestamp e \<le> ttl e)"
    using assms(2) by (auto simp: LRU_get_def isExpired_def)
  have c: "has now key s = (now - timestamp e \<le> ttl e)"
    using assms(2) by (auto simp: has_def isValid_def isExpired_def)
  have cl: "cache (cleanup now s) = filter (\<lambda>p. isValid now (snd p)) (cache s)"
    by (simp add: cleanup_def cleanup_filter [OF assms(1)])
  have d: "(\<forall>now'. \<not> has now' key (snd (Memory_get now key s))
                  \<and> fst (Memory_get now' key (snd (Memory_get now key s))) = None
                  \<and> \<not> has now' key (snd (LRU_get now key s))
                  \<and> fst (LRU_get now' key (snd (LRU_get now key s))) = None)
            \<and> \<not> Map_has (cache (cleanup now s)) key
            \<and> cache_size (cleanup now s) < cache_size s" if x: "ttl e < now - timestamp e"
  proof -
    from x assms(2) have m: "snd (Memory_get now key s) = s\<lparr>cache := Map_delete key (cache s)\<rparr>"
      and l: "snd (LRU_get now key s) = s\<lparr>cache := Map_delete key (cache s)\<rparr>"
      by (simp_all add: Memory_get_def LRU_get_def isExpired_def)
    from assms(2) have mem: "(key, e) \<in> set (cache s)"
      by (simp add: Map_get_def map_of_SomeD)
    have gone: "(key, e') \<notin> set (filter (\<lambda>p. isValid now (snd p)) (cache s))" for e'
    proof
      assume "(key, e') \<in> set (filter (\<lambda>p. isValid now (snd p)) (cache s))"
      then have "(key, e') \<in> set (cache s)" and v: "isValid now e'" by auto
      with assms(1) mem have "e' = e" by (meson eq_key_imp_eq_value)
      with v x show False by (simp add: isValid_def isExpired_def)
    qed
    then have "map_of (filter (\<lambda>p. isValid now (snd p)) (cache s)) key = None"
      by (metis map_of_SomeD not_Some_eq)
    then have h: "\<not> Map_has (cache (cleanup now s)) key" by (simp add: cl Map_has_def)
    from x have "\<not> isValid now (snd (key, e))" by (simp add: isValid_def isExpired_def)
    with mem have "length (filter (\<lambda>p. isValid now (snd p)) (cache s)) < length (cache s)"
      by (rule length_filter_less)
    then have sz: "cache_size (cleanup now s) < cache_size s" by (simp add: cl cache_size_def)
    from m l h sz show ?thesis by (simp add: get_after_delete)
  qed
  from a b c d cl show ?thesis by blast
qed

text \<open>The theorem at a store with one entry written at time 0 with a time to live of
  1000: still served at 1000, expired at 1001.\<close>

theorem cache_ttl_expiry_witness:
  "fst (Memory_get 1000 ''locale:en'' one_entry) \<noteq> None
   \<and> fst (LRU_get 1001 ''locale:en'' one_entry) = None
   \<and> \<not> has 5 ''locale:en'' (snd (Memory_get 1001 ''locale:en'' one_entry))
   \<and> cache_size (cleanup 1001 one_entry) < cache_size one_entry
   \<and> cache (cleanup 1000 one_entry) = cache one_entry"
  using cache_ttl_expiry [of one_entry "''locale:en''"
      "\<lparr>data = JOther, timestamp = 0, ttl = 1000, hits = 0\<rparr>" 1000]
    cache_ttl_expiry [of one_entry "''locale:en''"
      "\<lparr>data = JOther, timestamp = 0, ttl = 1000, hits = 0\<rparr>" 1001]
  by (simp add: one_entry_def Map_get_def isValid_def isExpired_def)

section \<open>C5: eviction under capacity\<close>



section \<open>C6: the recovery executor\<close>




section \<open>C7: fallback recovery with the shipped configuration\<close>

text \<open>
  Claim C7 says that when the request for a locale fails and a fallback locale is
  configured with a fallback strategy, the caller receives the fallback locale's payload
  and one successful recovery is recorded. The configured fallback locale is \<^verbatim>\<open>vi\<close>
  (\<^verbatim>\<open>FALLBACK_LOCALE\<close> of \<^verbatim>\<open>config.ts\<close>), and the strategy for a failed load is
  \<^verbatim>\<open>{type: 'fallback', fallbackLocale: 'en'}\<close> (\<^verbatim>\<open>initializeDefaultStrategies\<close>). So when
  \<^verbatim>\<open>en\<close> is the locale whose requests fail, the recovery callback requests \<^verbatim>\<open>en\<close> once more,
  recovery is recorded as failed, \<^verbatim>\<open>vi\<close> is never requested although the network would
  serve it, and \<^verbatim>\<open>load('en')\<close> raises a \<^verbatim>\<open>TranslationLoadError\<close>.
\<close>

theorem load_en_down_raises:
  "fst (load en_is_down 0 ''en'' None (new_System testCacheConfig))
     = Some (Inl (new_TranslationLoadError ''en''
                    (''Failed to load translations for locale '' @ quoted ''en'')
                    (Some (Error ''Failed to fetch''))))
   \<and> fetchLog (snd (load en_is_down 0 ''en'' None (new_System testCacheConfig))) = [''en'', ''en'']
   \<and> count_of (errorCounts (errorTracker (snd (load en_is_down 0 ''en'' None
         (new_System testCacheConfig))))) ''TranslationLoadError'' = 1
   \<and> count_of (localeErrorCounts (errorTracker (snd (load en_is_down 0 ''en'' None
         (new_System testCacheConfig))))) ''en'' = 1
   \<and> recoveryAttemptCount (errorTracker (snd (load en_is_down 0 ''en'' None
         (new_System testCacheConfig)))) = 1
   \<and> recoverySuccessCount (errorTracker (snd (load en_is_down 0 ''en'' None
         (new_System testCacheConfig)))) = 0
   \<and> en_is_down 2 (config_fallbackLocale I18N_CONFIG) = Json (hello_doc ''vi'')"
  by (simp add: loader_defs recovery_defs manager_defs cache_defs en_is_down_def
      hello_doc_def testCacheConfig_def Let_def)

text \<open>
  The same call once the strategy's locale is the configured one: the caller receives the
  payload of \<^verbatim>\<open>vi\<close>, one \<^verbatim>\<open>TranslationLoadError\<close> for \<^verbatim>\<open>en\<close> and one successful recovery are
  recorded, and \<^verbatim>\<open>vi\<close> is requested twice (once by the callback, whose payload is dropped,
  once for the result).
\<close>

lemma load_en_down_consistent_strategies:
  "fst (load en_is_down 0 ''en'' None consistent_strategies) = Some (Inr (JObj (hello_doc ''vi'')))
   \<and> fetchLog (snd (load en_is_down 0 ''en'' None consistent_strategies)) = [''en'', ''vi'', ''vi'']
   \<and> count_of (errorCounts (errorTracker (snd (load en_is_down 0 ''en'' None
         consistent_strategies)))) ''TranslationLoadError'' = 1
   \<and> count_of (localeErrorCounts (errorTracker (snd (load en_is_down 0 ''en'' None
         consistent_strategies)))) ''en'' = 1
   \<and> recoveryAttemptCount (errorTracker (snd (load en_is_down 0 ''en'' None
         consistent_strategies))) = 1
   \<and> recoverySuccessCount (errorTracker (snd (load en_is_down 0 ''en'' None
         consistent_strategies))) = 1"
  by (simp add: loader_defs recovery_defs manager_defs cache_defs en_is_down_def
      consistent_strategies_def hello_doc_def testCacheConfig_def Let_def)

section \<open>C8: \<^verbatim>\<open>setCurrentLocale\<close>\<close>

text \<open>
  Claim C8 says that an unsupported locale raises a failure of class
  \<^verbatim>\<open>ConfigurationError\<close>, and that a supported one is persisted. The code throws
  \<^verbatim>\<open>new Error(`Unsupported locale: ${locale}`)\<close>, which is not an instance of
  \<^verbatim>\<open>ConfigurationError\<close> (no code constructs one), and it persists only behind the guard
  \<^verbatim>\<open>typeof localStorage !== 'undefined'\<close>.
\<close>

theorem setCurrentLocale_error_class_counterexample:
  "fst (setCurrentLocale ''fr'' (new_I18nStateManager (Some []))) = Some (Error ''Unsupported locale: fr'')
   \<and> \<not> is_ConfigurationError (Error ''Unsupported locale: fr'')
   \<and> localStorage (snd (setCurrentLocale ''en'' (new_I18nStateManager None))) = None"
  by (simp add: state_defs)

text \<open>
  Claim C8 as amended. For a locale outside the supported locales, \<^verbatim>\<open>setCurrentLocale\<close>
  throws a plain \<^verbatim>\<open>Error\<close> with the message \<^verbatim>\<open>Unsupported locale: \<close> followed by the locale
  and leaves the whole state as it was: current locale, stored preference, and no
  observer is called. For a supported locale it returns, the current locale is the
  argument, every observer that has an \<^verbatim>\<open>onLocaleChange\<close> method has been called with it (in
  the order the observers were added), and where \<^verbatim>\<open>localStorage\<close> exists the locale is
  stored under the key \<^verbatim>\<open>preferred-locale\<close>.
\<close>

theorem setCurrentLocale_amended:
  "(\<not> isLocaleSupported locale st \<longrightarrow>
      setCurrentLocale locale st = (Some (Error (''Unsupported locale: '' @ locale)), st)
      \<and> \<not> is_ConfigurationError (Error (''Unsupported locale: '' @ locale)))
   \<and> (isLocaleSupported locale st \<longrightarrow>
        (\<exists>st'. setCurrentLocale locale st = (None, st')
           \<and> currentLocale st' = locale
           \<and> delivered st' =
               delivered st
                 @ map (\<lambda>obs. (observer_name obs, locale)) (filter has_onLocaleChange (observers st))
           \<and> (localStorage st = None \<longrightarrow> localStorage st' = None)
           \<and> (\<forall>items. localStorage st = Some items \<longrightarrow>
                 localStorage st' = Some (Map_set ''preferred-locale'' locale items)
                 \<and> Map_get (Map_set ''preferred-locale'' locale items) ''preferred-locale''
                     = Some locale)))"
  by (cases "localStorage st")
    (simp_all add: setCurrentLocale_def notify_onLocaleChange_def Map_get_def map_of_Map_set
      Let_def)

text \<open>In a browser with empty storage and one observer: \<^verbatim>\<open>fr\<close> is refused and nothing
  changes; \<^verbatim>\<open>en\<close> becomes the current locale, the observer is told, and the choice is
  stored.\<close>

theorem setCurrentLocale_amended_witness:
  "setCurrentLocale ''fr'' browser_state = (Some (Error ''Unsupported locale: fr''), browser_state)
   \<and> fst (setCurrentLocale ''en'' browser_state) = None
   \<and> currentLocale (snd (setCurrentLocale ''en'' browser_state)) = ''en''
   \<and> delivered (snd (setCurrentLocale ''en'' browser_state)) = [(''logger'', ''en'')]
   \<and> localStorage (snd (setCurrentLocale ''en'' browser_state)) = Some [(''preferred-locale'', ''en'')]"
  using setCurrentLocale_amended [of "''fr''" browser_state]
    setCurrentLocale_amended [of "''en''" browser_state]
  by (simp add: browser_state_def logger_def state_defs)

section \<open>C9: \<^verbatim>\<open>getTranslation\<close> never throws\<close>



section \<open>C10: a payload obtained by fallback is not cached\<close>

text \<open>
  Claim C10. Take a call \<^verbatim>\<open>load(locale, section)\<close> with nothing in flight that misses the
  cache and whose request fails, whatever recovery then does (in particular when it ends
  with the fallback locale's payload). Afterwards:
  \<^item> the cache manager is what the cache check of \<^verbatim>\<open>load\<close> left (the check deletes the
    entry it looked for if that was expired): nothing was written to any tier, every
    \<^verbatim>\<open>hasLocaleCache\<close> and \<^verbatim>\<open>hasSectionCache\<close> answers as before and the key tier is
    untouched;
  \<^item> nothing is in flight, and the request log has only grown;
  \<^item> the next \<^verbatim>\<open>load\<close> of the same target, at any time, issues a request for the locale
    again; so does the next \<^verbatim>\<open>load\<close> of any other locale, the fallback locale included,
    that had no valid entry in the tier before.
\<close>

theorem fallback_payload_not_cached:
  assumes "loadingPromises w = []"
    and "fst (cache_lookup now locale section (cacheManager w)) = None"
    and "net (length (fetchLog w)) locale = Failed x"
    and "load net now locale section w = (r, w')"
  shows "cacheManager w' = snd (cache_lookup now locale section (cacheManager w))
       \<and> (\<forall>l. hasLocaleCache now l (cacheManager w') = hasLocaleCache now l (cacheManager w))
       \<and> (\<forall>l s. hasSectionCache now l s (cacheManager w')
                  = hasSectionCache now l s (cacheManager w))
       \<and> keyCache (cacheManager w') = keyCache (cacheManager w)
       \<and> loadingPromises w' = []
       \<and> (\<exists>rest. fetchLog w' = fetchLog w @ locale # rest)
       \<and> (\<forall>net' now'. \<exists>rest.
             fetchLog (snd (load net' now' locale section w')) = fetchLog w' @ locale # rest)
       \<and> (\<forall>net' now' l.
             now \<le> now' \<and> fst (cache_lookup now l section (cacheManager w)) = None \<longrightarrow>
             (\<exists>rest. fetchLog (snd (load net' now' l section w')) = fetchLog w' @ l # rest))"
proof -
  from load_miss_failed [of w now "locale" "section" net x, OF assms(1-3)] assms(4)
  have cm: "cacheManager w' = snd (cache_lookup now locale section (cacheManager w))"
    and lp: "loadingPromises w' = []"
    and fl: "\<exists>rest. fetchLog w' = fetchLog w @ locale # rest"
    by simp_all
  note views = cache_lookup_views [OF assms(2)]
  have again: "\<exists>rest. fetchLog (snd (load net' now' locale section w')) = fetchLog w' @ locale # rest"
    for net' now'
  proof -
    have "fst (cache_lookup now' locale section (cacheManager w')) = None"
      unfolding cm by (rule cache_lookup_gone [OF assms(2)])
    from load_miss_fetches [OF lp this] show ?thesis .
  qed
  have other: "\<exists>rest. fetchLog (snd (load net' now' l section w')) = fetchLog w' @ l # rest"
    if "now \<le> now'" and "fst (cache_lookup now l section (cacheManager w)) = None"
    for net' now' l
  proof -
    have "fst (cache_lookup now' l section (cacheManager w')) = None"
      unfolding cm by (rule cache_lookup_still_miss [OF assms(2) that(2) that(1)])
    from load_miss_fetches [OF lp this] show ?thesis .
  qed
  from cm lp fl views again other show ?thesis by (simp only:) blast
qed

text \<open>
  With the default strategies and empty caches: the request for \<^verbatim>\<open>en\<close> fails, the recovery
  callback fetches \<^verbatim>\<open>en\<close> (the locale of the \<^verbatim>\<open>translation_load\<close> strategy), and the caller
  receives the payload of \<^verbatim>\<open>vi\<close> (the configured fallback locale). The caches are as
  before, and a later \<^verbatim>\<open>load('vi')\<close> fetches \<^verbatim>\<open>vi\<close> again.
\<close>

theorem fallback_payload_not_cached_witness:
  "fst (load first_request_fails 0 ''en'' None (new_System testCacheConfig))
     = Some (Inr (JObj (hello_doc ''vi'')))
   \<and> cacheManager (snd (load first_request_fails 0 ''en'' None (new_System testCacheConfig)))
     = cacheManager (new_System testCacheConfig)
   \<and> fetchLog (snd (load first_request_fails 0 ''en'' None (new_System testCacheConfig)))
     = [''en'', ''en'', ''vi'']
   \<and> (\<exists>rest. fetchLog (snd (load first_request_fails 5 ''vi'' None
                 (snd (load first_request_fails 0 ''en'' None (new_System testCacheConfig)))))
               = [''en'', ''en'', ''vi''] @ ''vi'' # rest)"
proof -
  have ld: "load first_request_fails 0 ''en'' None (new_System testCacheConfig) =
      (Some (Inr (JObj (hello_doc ''vi''))),
       (new_System testCacheConfig)
         \<lparr>errorTracker :=
            \<lparr>errorLog = [new_TranslationLoadError ''en'' ''Failed to fetch''
                           (Some (Error ''Failed to fetch''))],
             errorCounts = [(''TranslationLoadError'', 1)],
             localeErrorCounts = [(''en'', 1)],
             recoverySuccessCount = 1, recoveryAttemptCount = 1, maxLogSize = 100\<rparr>,
          nextPromise := 1,
          settled := [(0, Inr (JObj (hello_doc ''vi'')))],
          fetchLog := [''en'', ''en'', ''vi'']\<rparr>)"
    by (simp add: loader_defs recovery_defs manager_defs cache_defs first_request_fails_def
        testCacheConfig_def)
  have h: "fst (cache_lookup 0 ''en'' None (cacheManager (new_System testCacheConfig))) = None"
    "fst (cache_lookup 0 ''vi'' None (cacheManager (new_System testCacheConfig))) = None"
    by (simp_all add: loader_defs recovery_defs manager_defs cache_defs testCacheConfig_def)
  have f: "first_request_fails (length (fetchLog (new_System testCacheConfig))) ''en''
             = Failed (Rejected ''Failed to fetch'')"
    by (simp add: first_request_fails_def new_System_def)
  have e: "loadingPromises (new_System testCacheConfig) = []" by (simp add: new_System_def)
  let ?w' = "snd (load first_request_fails 0 ''en'' None (new_System testCacheConfig))"
  from fallback_payload_not_cached [OF e h(1) f ld] ld
  have "cacheManager ?w' = snd (cache_lookup 0 ''en'' None (cacheManager (new_System testCacheConfig)))"
    and "\<forall>net' now' l.
           0 \<le> now' \<and> fst (cache_lookup 0 l None (cacheManager (new_System testCacheConfig))) = None
           \<longrightarrow> (\<exists>rest. fetchLog (snd (load net' now' l None ?w')) = fetchLog ?w' @ l # rest)"
    by simp_all
  with h(2) have "\<exists>rest. fetchLog (snd (load first_request_fails 5 ''vi'' None ?w'))
                    = fetchLog ?w' @ ''vi'' # rest"
    by simp
  with ld show ?thesis by (simp add: new_System_def)
qed

end
